theory Spec2Isabelle
  imports Main
begin

section \<open>JavaScript values, errors and engine built-ins\<close>

text \<open>
  Values that travel through the client core are JSON-shaped JavaScript values, plus
  \<open>undefined\<close>. An object is its list of own properties in insertion order; numbers
  carry an integer payload (no claim depends on the numeric value itself).
\<close>

datatype jsval =
    JUndefined
  | JNull
  | JBool bool
  | JNum int
  | JStr string
  | JArr "jsval list"
  | JObj "(string \<times> jsval) list"

text \<open>
  Thrown values. \<open>Error m\<close> is \<open>new Error(m)\<close>; the other constructors are the
  error classes the engine and \<open>fetch\<close> throw. \<open>err_name\<close> and \<open>err_message\<close> are the
  \<open>.name\<close> and \<open>.message\<close> properties the source reads.
\<close>

datatype js_error =
    Error string
  | SyntaxError string
  | TypeError string
  | AbortError string

fun err_name :: "js_error \<Rightarrow> string" where
  "err_name (Error m) = ''Error''"
| "err_name (SyntaxError m) = ''SyntaxError''"
| "err_name (TypeError m) = ''TypeError''"
| "err_name (AbortError m) = ''AbortError''"

fun err_message :: "js_error \<Rightarrow> string" where
  "err_message (Error m) = m"
| "err_message (SyntaxError m) = m"
| "err_message (TypeError m) = m"
| "err_message (AbortError m) = m"

text \<open>
  What the JavaScript engine supplies and the repository does not define: \<open>JSON.parse\<close>
  on a string (\<open>Inl m\<close> is a thrown \<open>SyntaxError\<close> with message \<open>m\<close>), the \<open>ToString\<close>
  conversion used by template literals and by \<open>JSON.parse\<close> on a non-string argument,
  and the message of the \<open>TypeError\<close> raised by reading a property of \<open>null\<close> or
  \<open>undefined\<close>. They are parameters of every function that needs them.
\<close>

record js_builtins =
  JSON_parse :: "string \<Rightarrow> string + jsval"
  ToString :: "jsval \<Rightarrow> string"
  nullish_message :: "jsval \<Rightarrow> string \<Rightarrow> string"

definition to_string :: "js_builtins \<Rightarrow> jsval \<Rightarrow> string" where
  "to_string b v = (case v of JStr s \<Rightarrow> s | _ \<Rightarrow> ToString b v)"

text \<open>\<open>JSON.parse(v)\<close> for an arbitrary value: the argument is converted to a string first.\<close>

definition JSON_parse_value :: "js_builtins \<Rightarrow> jsval \<Rightarrow> string + jsval" where
  "JSON_parse_value b v = JSON_parse b (to_string b v)"

text \<open>Truthiness, \<open>Array.isArray\<close>, \<open>typeof v === 'object'\<close>.\<close>

fun truthy :: "jsval \<Rightarrow> bool" where
  "truthy JUndefined = False"
| "truthy JNull = False"
| "truthy (JBool c) = c"
| "truthy (JNum n) = (n \<noteq> 0)"
| "truthy (JStr s) = (s \<noteq> [])"
| "truthy (JArr xs) = True"
| "truthy (JObj kvs) = True"

fun isArray :: "jsval \<Rightarrow> bool" where
  "isArray (JArr xs) = True"
| "isArray v = False"

fun typeof_object :: "jsval \<Rightarrow> bool" where
  "typeof_object JNull = True"
| "typeof_object (JArr xs) = True"
| "typeof_object (JObj kvs) = True"
| "typeof_object v = False"

text \<open>
  Property read \<open>v.k\<close>, for the property names the source reads (\<open>content\<close>, \<open>type\<close>,
  \<open>text\<close>, \<open>error\<close>, \<open>code\<close>, \<open>message\<close>, \<open>result\<close>, \<open>method\<close>, \<open>id\<close>,
  \<open>params\<close>): none of them exists on a prototype, so on anything but an object
  with that own property the read gives \<open>undefined\<close>, and on \<open>null\<close> and
  \<open>undefined\<close> it throws.
\<close>

fun get_prop :: "js_builtins \<Rightarrow> jsval \<Rightarrow> string \<Rightarrow> js_error + jsval" where
  "get_prop b JUndefined k = Inl (TypeError (nullish_message b JUndefined k))"
| "get_prop b JNull k = Inl (TypeError (nullish_message b JNull k))"
| "get_prop b (JObj kvs) k = Inr (case map_of kvs k of None \<Rightarrow> JUndefined | Some v \<Rightarrow> v)"
| "get_prop b v k = Inr JUndefined"

text \<open>\<open>k in v\<close> for a value that passed \<open>typeof v === 'object'\<close> and is truthy.\<close>

fun has_key :: "string \<Rightarrow> jsval \<Rightarrow> bool" where
  "has_key k (JObj kvs) = (k \<in> fst ` set kvs)"
| "has_key k v = False"

section \<open>Result normalisation\<close>

text \<open>
  The tail of \<open>callMCPTool\<close> (src/client.ts, "Extract content from result"):
  \<^verbatim>\<open>
  if (result.content && Array.isArray(result.content)) {
    if (result.content.length === 1 && result.content[0].type === 'text') {
      try { return JSON.parse(result.content[0].text); }
      catch { return result.content[0].text; }
    }
    return result.content;
  }
  return result;
  \<close>
\<close>

definition parse_or_text :: "js_builtins \<Rightarrow> jsval \<Rightarrow> jsval" where
  "parse_or_text b text = (case JSON_parse_value b text of Inr v \<Rightarrow> v | Inl m \<Rightarrow> text)"

definition callMCPTool_extract :: "js_builtins \<Rightarrow> jsval \<Rightarrow> js_error + jsval" where
  "callMCPTool_extract b result =
     (case get_prop b result ''content'' of
        Inl e \<Rightarrow> Inl e
      | Inr content \<Rightarrow>
          if truthy content \<and> isArray content then
            (case content of
               JArr [entry] \<Rightarrow>
                 (case get_prop b entry ''type'' of
                    Inl e \<Rightarrow> Inl e
                  | Inr ty \<Rightarrow>
                      if ty = JStr ''text'' then
                        (case get_prop b entry ''text'' of
                           Inl e \<Rightarrow> Inl e
                         | Inr text \<Rightarrow> Inr (parse_or_text b text))
                      else Inr content)
             | _ \<Rightarrow> Inr content)
          else Inr result)"

text \<open>
  The tail of \<open>HTTPMCPClient.callTool\<close> (http-client.ts):
  \<^verbatim>\<open>
  if (result && typeof result === 'object' && 'content' in result) {
    const content = result.content;
    if (Array.isArray(content) && content.length === 1 && content[0].type === 'text') {
      try { return JSON.parse(content[0].text); }
      catch { return content[0].text; }
    }
    return content;
  }
  return result;
  \<close>
\<close>

definition callTool_extract :: "js_builtins \<Rightarrow> jsval \<Rightarrow> js_error + jsval" where
  "callTool_extract b result =
     (if truthy result \<and> typeof_object result \<and> has_key ''content'' result then
        (case get_prop b result ''content'' of
           Inl e \<Rightarrow> Inl e
         | Inr content \<Rightarrow>
             (case content of
                JArr [entry] \<Rightarrow>
                  (case get_prop b entry ''type'' of
                     Inl e \<Rightarrow> Inl e
                   | Inr ty \<Rightarrow>
                       if ty = JStr ''text'' then
                         (case get_prop b entry ''text'' of
                            Inl e \<Rightarrow> Inl e
                          | Inr text \<Rightarrow> Inr (parse_or_text b text))
                       else Inr content)
              | _ \<Rightarrow> Inr content))
      else Inr result)"

section \<open>Remote transport: \<open>HTTPMCPClient\<close>\<close>

text \<open>
  What the client reads off the value it is constructed with: \<open>config.url\<close> and
  \<open>config.headers\<close>. For an entry of \<open>httpServers\<close> (an \<open>HTTPServerConfig\<close> of
  config.ts, whose descriptive fields \<open>description\<close> and \<open>tools\<close> are never read) the
  \<open>url\<close> is a string; \<open>None\<close> is \<open>undefined\<close>, the result of the read on a value
  that has no such property. An absent \<open>headers\<close> is the empty map: it is only ever
  spread into an object literal.
\<close>

record HTTPServerConfig =
  url :: "string option"
  headers :: "string \<rightharpoonup> string"

record JSONRPCRequest =
  rq_id :: nat
  rq_method :: string
  rq_params :: jsval

text \<open>
  One call \<open>fetch(url, {method: 'POST', headers, body})\<close>, with the arguments it is
  given (\<open>None\<close>: the url is \<open>undefined\<close>).
\<close>

record http_post =
  post_url :: "string option"
  post_headers :: "string \<rightharpoonup> string"
  post_body :: JSONRPCRequest

text \<open>
  What the network does with one exchange: it delivers a response whose body has been
  read completely \<open>delay\<close> milliseconds after the request was issued, or it fails after
  \<open>delay\<close> milliseconds, or it never completes. The \<open>n\<close>-th exchange of a run is
  answered by \<open>net n\<close>.
\<close>

datatype net_reply =
    Reply nat nat string
  | Net_failure nat js_error
  | No_reply

type_synonym network = "nat \<Rightarrow> net_reply"

definition response_ok :: "nat \<Rightarrow> bool" where
  "response_ok status = (200 \<le> status \<and> status \<le> 299)"

text \<open>
  How an asynchronous call ends: it returns a value, it throws, or its promise never
  settles.
\<close>

datatype 'a outcome = Returned 'a | Thrown js_error | Never_settles

record HTTPMCPClient =
  name :: string
  config :: HTTPServerConfig
  requestId :: nat
  initialized :: bool
  serverInfo :: jsval

definition new_HTTPMCPClient :: "string \<Rightarrow> HTTPServerConfig \<Rightarrow> HTTPMCPClient" where
  "new_HTTPMCPClient n cfg =
     \<lparr>name = n, config = cfg, requestId = 0, initialized = False, serverInfo = JNull\<rparr>"

text \<open>
  \<open>sendRequest\<close> runs synchronously up to the \<open>await fetch\<close>: it increments the
  counter, builds the envelope with \<open>id: ++this.requestId\<close> and issues the POST
  (\<open>sendRequest_begin\<close>). The rest runs when the exchange completes
  (\<open>sendRequest_end\<close>). No timer and no abort signal is attached to the \<open>fetch\<close>.
\<close>

definition sendRequest_begin ::
  "string \<Rightarrow> jsval \<Rightarrow> HTTPMCPClient \<times> http_post list \<Rightarrow> HTTPMCPClient \<times> http_post list" where
  "sendRequest_begin method params st =
     (case st of (c, wire) \<Rightarrow>
        let c' = c\<lparr>requestId := requestId c + 1\<rparr>;
            request = \<lparr>rq_id = requestId c', rq_method = method, rq_params = params\<rparr>
        in (c', wire @ [\<lparr>post_url = url (config c),
                         post_headers = (headers (config c))(''Content-Type'' \<mapsto> ''application/json''),
                         post_body = request\<rparr>]))"

definition sendRequest_end :: "js_builtins \<Rightarrow> net_reply \<Rightarrow> jsval outcome" where
  "sendRequest_end b reply =
     (case reply of
        No_reply \<Rightarrow> Never_settles
      | Net_failure d e \<Rightarrow> Thrown e
      | Reply d status body \<Rightarrow>
          if \<not> response_ok status then
            Thrown (Error (''HTTP '' @ to_string b (JNum (int status)) @ '': '' @ body))
          else
            (case JSON_parse b body of
               Inl m \<Rightarrow> Thrown (SyntaxError m)
             | Inr json \<Rightarrow>
                 (case get_prop b json ''error'' of
                    Inl e \<Rightarrow> Thrown e
                  | Inr err \<Rightarrow>
                      if truthy err then
                        (case (get_prop b err ''code'', get_prop b err ''message'') of
                           (Inr code, Inr msg) \<Rightarrow>
                             Thrown (Error (''MCP Error '' @ to_string b code @ '': '' @ to_string b msg))
                         | (Inl e, _) \<Rightarrow> Thrown e
                         | (_, Inl e) \<Rightarrow> Thrown e)
                      else
                        (case get_prop b json ''result'' of
                           Inl e \<Rightarrow> Thrown e
                         | Inr r \<Rightarrow> Returned r))))"

definition sendRequest ::
  "js_builtins \<Rightarrow> network \<Rightarrow> string \<Rightarrow> jsval \<Rightarrow> HTTPMCPClient \<times> http_post list
     \<Rightarrow> jsval outcome \<times> HTTPMCPClient \<times> http_post list" where
  "sendRequest b net method params st =
     (sendRequest_end b (net (length (snd st))), sendRequest_begin method params st)"

definition initialize_params :: "string \<Rightarrow> jsval" where
  "initialize_params n =
     JObj [(''protocolVersion'', JStr ''2024-11-05''),
           (''capabilities'', JObj []),
           (''clientInfo'', JObj [(''name'', JStr (''mcp-superstack-'' @ n)),
                                  (''version'', JStr ''1.0.0'')])]"

definition initialize ::
  "js_builtins \<Rightarrow> network \<Rightarrow> HTTPMCPClient \<times> http_post list
     \<Rightarrow> unit outcome \<times> HTTPMCPClient \<times> http_post list" where
  "initialize b net st =
     (if initialized (fst st) then (Returned (), st)
      else
        (case sendRequest b net ''initialize'' (initialize_params (name (fst st))) st of
           (Returned result, c', wire') \<Rightarrow>
             (Returned (), c'\<lparr>serverInfo := result, initialized := True\<rparr>, wire')
         | (Thrown e, st') \<Rightarrow> (Thrown e, st')
         | (Never_settles, st') \<Rightarrow> (Never_settles, st')))"

text \<open>
  \<open>initialize\<close> up to its \<open>await this.sendRequest(\<dots>)\<close>: with the flag set it
  returns, otherwise the request is begun. The flag is written after the \<open>await\<close>,
  when the reply has arrived.
\<close>

definition initialize_begin :: "HTTPMCPClient \<times> http_post list \<Rightarrow> HTTPMCPClient \<times> http_post list" where
  "initialize_begin st =
     (if initialized (fst st) then st
      else sendRequest_begin ''initialize'' (initialize_params (name (fst st))) st)"

definition listTools ::
  "js_builtins \<Rightarrow> network \<Rightarrow> HTTPMCPClient \<times> http_post list
     \<Rightarrow> jsval outcome \<times> HTTPMCPClient \<times> http_post list" where
  "listTools b net st =
     (case initialize b net st of
        (Returned u, st') \<Rightarrow> sendRequest b net ''tools/list'' JUndefined st'
      | (Thrown e, st') \<Rightarrow> (Thrown e, st')
      | (Never_settles, st') \<Rightarrow> (Never_settles, st'))"

definition callTool ::
  "js_builtins \<Rightarrow> network \<Rightarrow> string \<Rightarrow> jsval \<Rightarrow> HTTPMCPClient \<times> http_post list
     \<Rightarrow> jsval outcome \<times> HTTPMCPClient \<times> http_post list" where
  "callTool b net toolName args st =
     (case initialize b net st of
        (Returned u, st') \<Rightarrow>
          (case sendRequest b net ''tools/call''
                  (JObj [(''name'', JStr toolName), (''arguments'', args)]) st' of
             (Returned result, st'') \<Rightarrow>
               (case callTool_extract b result of
                  Inl e \<Rightarrow> (Thrown e, st'')
                | Inr v \<Rightarrow> (Returned v, st''))
           | (Thrown e, st'') \<Rightarrow> (Thrown e, st'')
           | (Never_settles, st'') \<Rightarrow> (Never_settles, st''))
      | (Thrown e, st') \<Rightarrow> (Thrown e, st')
      | (Never_settles, st') \<Rightarrow> (Never_settles, st'))"

text \<open>The public operations of one client, and a caller that issues a list of them.\<close>

datatype client_op = Op_initialize | Op_listTools | Op_callTool string jsval

fun run_op ::
  "js_builtins \<Rightarrow> network \<Rightarrow> client_op \<Rightarrow> HTTPMCPClient \<times> http_post list
     \<Rightarrow> HTTPMCPClient \<times> http_post list" where
  "run_op b net Op_initialize st = snd (initialize b net st)"
| "run_op b net Op_listTools st = snd (listTools b net st)"
| "run_op b net (Op_callTool t a) st = snd (callTool b net t a st)"

fun run_ops ::
  "js_builtins \<Rightarrow> network \<Rightarrow> client_op list \<Rightarrow> HTTPMCPClient \<times> http_post list
     \<Rightarrow> HTTPMCPClient \<times> http_post list" where
  "run_ops b net [] st = st"
| "run_ops b net (x # xs) st = run_ops b net xs (run_op b net x st)"

text \<open>
  Any interleaving of calls on one client is, for the counter, a sequence of
  \<open>sendRequest_begin\<close> steps: nothing else writes \<open>requestId\<close>.
\<close>

fun begin_all ::
  "(string \<times> jsval) list \<Rightarrow> HTTPMCPClient \<times> http_post list \<Rightarrow> HTTPMCPClient \<times> http_post list" where
  "begin_all [] st = st"
| "begin_all (r # rs) st = begin_all rs (sendRequest_begin (fst r) (snd r) st)"

definition request_ids :: "http_post list \<Rightarrow> nat list" where
  "request_ids wire = map (\<lambda>p. rq_id (post_body p)) wire"

definition request_methods :: "http_post list \<Rightarrow> string list" where
  "request_methods wire = map (\<lambda>p. rq_method (post_body p)) wire"


text \<open>The ids on the wire are \<open>1, 2, \<dots>\<close> up to the counter: kept by every step of a client.\<close>

definition ids_ok :: "HTTPMCPClient \<times> http_post list \<Rightarrow> bool" where
  "ids_ok st = (request_ids (snd st) = [1..<Suc (requestId (fst st))])"

section \<open>Remote transport: \<open>HTTPClientManager\<close>\<close>

text \<open>
  The registries \<open>httpServers\<close> and \<open>stdioServers\<close> of config.ts are object literals
  whose values are read from the environment; they are parameters, given as the list of
  their own entries in the order \<open>Object.keys\<close> enumerates.

  The managers read them with \<open>httpServers[serverName]\<close> and
  \<open>stdioServers[serverName]\<close>. A property read on an object literal finds an own entry
  or else follows the prototype chain to \<open>Object.prototype\<close>, whose members are
  functions (and, under \<open>__proto__\<close>, \<open>Object.prototype\<close> itself): all of them are
  truthy, and none has a \<open>url\<close>, \<open>headers\<close>, \<open>command\<close>, \<open>args\<close> or \<open>env\<close>
  property. For every other name the read gives \<open>undefined\<close> (\<open>None\<close>).
\<close>

definition Object_prototype_names :: "string list" where
  "Object_prototype_names =
     [''constructor'', ''__defineGetter__'', ''__defineSetter__'', ''hasOwnProperty'',
      ''__lookupGetter__'', ''__lookupSetter__'', ''isPrototypeOf'', ''propertyIsEnumerable'',
      ''toString'', ''valueOf'', ''__proto__'', ''toLocaleString'']"

definition httpServers_lookup ::
  "(string \<times> HTTPServerConfig) list \<Rightarrow> string \<Rightarrow> HTTPServerConfig option" where
  "httpServers_lookup httpServers serverName =
     (case map_of httpServers serverName of
        Some cfg \<Rightarrow> Some cfg
      | None \<Rightarrow>
          if serverName \<in> set Object_prototype_names
          then Some \<lparr>url = None, headers = Map.empty\<rparr>
          else None)"

fun join :: "string \<Rightarrow> string list \<Rightarrow> string" where
  "join sep [] = []"
| "join sep [x] = x"
| "join sep (x # y # ys) = x @ sep @ join sep (y # ys)"

definition unknown_HTTP_server :: "(string \<times> HTTPServerConfig) list \<Rightarrow> string \<Rightarrow> js_error" where
  "unknown_HTTP_server httpServers serverName =
     Error (''Unknown HTTP server: '' @ serverName @ ''. Available: ''
            @ join '', '' (map fst httpServers))"

record HTTPClientManager =
  http_clients :: "string \<rightharpoonup> HTTPMCPClient"

definition new_HTTPClientManager :: HTTPClientManager where
  "new_HTTPClientManager = \<lparr>http_clients = Map.empty\<rparr>"

definition HTTPClientManager_getClient ::
  "(string \<times> HTTPServerConfig) list \<Rightarrow> string \<Rightarrow> HTTPClientManager
     \<Rightarrow> js_error + (HTTPMCPClient \<times> HTTPClientManager)" where
  "HTTPClientManager_getClient httpServers serverName m =
     (case http_clients m serverName of
        Some c \<Rightarrow> Inr (c, m)
      | None \<Rightarrow>
          (case httpServers_lookup httpServers serverName of
             None \<Rightarrow> Inl (unknown_HTTP_server httpServers serverName)
           | Some cfg \<Rightarrow>
               let c = new_HTTPMCPClient serverName cfg
               in Inr (c, m\<lparr>http_clients := (http_clients m)(serverName \<mapsto> c)\<rparr>)))"

definition HTTPClientManager_disconnect :: "string \<Rightarrow> HTTPClientManager \<Rightarrow> HTTPClientManager" where
  "HTTPClientManager_disconnect serverName m =
     m\<lparr>http_clients := (http_clients m)(serverName := None)\<rparr>"

text \<open>
  The exported functions. The client object lives in the manager's map and is mutated
  in place, so the state a call leaves in the client is the state the map holds.
\<close>

definition store_client :: "string \<Rightarrow> HTTPMCPClient \<Rightarrow> HTTPClientManager \<Rightarrow> HTTPClientManager" where
  "store_client serverName c m = m\<lparr>http_clients := (http_clients m)(serverName \<mapsto> c)\<rparr>"

definition initializeHTTPServer ::
  "js_builtins \<Rightarrow> network \<Rightarrow> (string \<times> HTTPServerConfig) list \<Rightarrow> string
     \<Rightarrow> HTTPClientManager \<times> http_post list
     \<Rightarrow> unit outcome \<times> HTTPClientManager \<times> http_post list" where
  "initializeHTTPServer b net httpServers serverName st =
     (case HTTPClientManager_getClient httpServers serverName (fst st) of
        Inl e \<Rightarrow> (Thrown e, st)
      | Inr (c, m) \<Rightarrow>
          (case initialize b net (c, snd st) of
             (out, c', wire') \<Rightarrow> (out, store_client serverName c' m, wire')))"

text \<open>\<open>initializeHTTPServer\<close> up to the \<open>await\<close> inside \<open>client.initialize()\<close>.\<close>

definition initializeHTTPServer_begin ::
  "(string \<times> HTTPServerConfig) list \<Rightarrow> string \<Rightarrow> HTTPClientManager \<times> http_post list
     \<Rightarrow> HTTPClientManager \<times> http_post list" where
  "initializeHTTPServer_begin httpServers serverName st =
     (case HTTPClientManager_getClient httpServers serverName (fst st) of
        Inl e \<Rightarrow> st
      | Inr (c, m) \<Rightarrow>
          (case initialize_begin (c, snd st) of
             (c', wire') \<Rightarrow> (store_client serverName c' m, wire')))"

definition callHTTPMCPTool ::
  "js_builtins \<Rightarrow> network \<Rightarrow> (string \<times> HTTPServerConfig) list \<Rightarrow> string \<Rightarrow> string \<Rightarrow> jsval
     \<Rightarrow> HTTPClientManager \<times> http_post list
     \<Rightarrow> jsval outcome \<times> HTTPClientManager \<times> http_post list" where
  "callHTTPMCPTool b net httpServers serverName toolName args st =
     (case HTTPClientManager_getClient httpServers serverName (fst st) of
        Inl e \<Rightarrow> (Thrown e, st)
      | Inr (c, m) \<Rightarrow>
          (case callTool b net toolName args (c, snd st) of
             (out, c', wire') \<Rightarrow> (out, store_client serverName c' m, wire')))"

definition listHTTPTools ::
  "js_builtins \<Rightarrow> network \<Rightarrow> (string \<times> HTTPServerConfig) list \<Rightarrow> string
     \<Rightarrow> HTTPClientManager \<times> http_post list
     \<Rightarrow> jsval outcome \<times> HTTPClientManager \<times> http_post list" where
  "listHTTPTools b net httpServers serverName st =
     (case HTTPClientManager_getClient httpServers serverName (fst st) of
        Inl e \<Rightarrow> (Thrown e, st)
      | Inr (c, m) \<Rightarrow>
          (case listTools b net (c, snd st) of
             (out, c', wire') \<Rightarrow> (out, store_client serverName c' m, wire')))"

text \<open>
  Every key of the cache is a key of the registry: true of the empty manager, and kept
  by every operation on a name that \<open>Object.prototype\<close> does not define.
\<close>

definition http_cache_ok :: "(string \<times> HTTPServerConfig) list \<Rightarrow> HTTPClientManager \<Rightarrow> bool" where
  "http_cache_ok httpServers m = (dom (http_clients m) \<subseteq> fst ` set httpServers)"

section \<open>Local transport: \<open>StdioClientManager\<close>\<close>

text \<open>
  What \<open>createClient\<close> reads off the value it looked up: \<open>config.command\<close>,
  \<open>config.args\<close> and \<open>config.env\<close>. For an entry of \<open>stdioServers\<close> (a
  \<open>StdioServerConfig\<close> of config.ts) the first two are a string and a list of strings;
  \<open>None\<close> is \<open>undefined\<close>, the result of the read on a value that has no such
  property. An absent \<open>env\<close> is the empty map: it is only ever spread into an object
  literal.
\<close>

record StdioServerConfig =
  command :: "string option"
  args :: "string list option"
  env :: "string \<rightharpoonup> string"

definition stdioServers_lookup ::
  "(string \<times> StdioServerConfig) list \<Rightarrow> string \<Rightarrow> StdioServerConfig option" where
  "stdioServers_lookup stdioServers serverName =
     (case map_of stdioServers serverName of
        Some cfg \<Rightarrow> Some cfg
      | None \<Rightarrow>
          if serverName \<in> set Object_prototype_names
          then Some \<lparr>command = None, args = None, env = Map.empty\<rparr>
          else None)"

text \<open>
  \<open>Client\<close> and \<open>StdioClientTransport\<close> are classes of the MCP SDK. The manager only
  stores references to them, so an object is its reference, a fresh number per
  \<open>new\<close>. What the SDK is asked to do to the outside is recorded in a trace:
  \<open>Connect name command args client transport\<close> is \<open>client.connect(transport)\<close> on a
  transport built with that command and those arguments.
\<close>

type_synonym ref = nat

datatype stdio_io =
    Connect string "string option" "string list option" ref ref
  | Close ref
  | Call_tool ref string jsval
  | List_tools ref
  | Console_error string js_error

text \<open>
  The promise \<open>createClient\<close> returns: pending while \<open>client.connect(transport)\<close> is
  awaited (it holds the client and the transport under construction), then fulfilled
  with the client or rejected.
\<close>

datatype promise_state = Pending ref ref | Fulfilled ref | Rejected js_error

record creation =
  p_server :: string
  p_state :: promise_state

text \<open>
  The three maps are the fields of the class; \<open>promises\<close> (promise identity is the index),
  \<open>next_ref\<close> and \<open>trace\<close> belong to the runtime.
\<close>

record StdioClientManager =
  clients :: "string \<rightharpoonup> ref"
  transports :: "string \<rightharpoonup> ref"
  initializing :: "string \<rightharpoonup> nat"
  promises :: "creation list"
  next_ref :: nat
  trace :: "stdio_io list"

definition new_StdioClientManager :: StdioClientManager where
  "new_StdioClientManager =
     \<lparr>clients = Map.empty, transports = Map.empty, initializing = Map.empty,
      promises = [], next_ref = 0, trace = []\<rparr>"

definition unknown_stdio_server :: "(string \<times> StdioServerConfig) list \<Rightarrow> string \<Rightarrow> js_error" where
  "unknown_stdio_server stdioServers serverName =
     Error (''Unknown stdio server: '' @ serverName @ ''. Available: ''
            @ join '', '' (map fst stdioServers))"

text \<open>
  \<open>createClient\<close> up to its \<open>await client.connect(transport)\<close>: when the lookup gives
  \<open>undefined\<close> it throws at once (the returned promise is already rejected); otherwise
  the transport and the client are built and the connect is started.
\<close>

definition createClient_begin ::
  "(string \<times> StdioServerConfig) list \<Rightarrow> string \<Rightarrow> StdioClientManager \<Rightarrow> StdioClientManager" where
  "createClient_begin stdioServers serverName m =
     (case stdioServers_lookup stdioServers serverName of
        None \<Rightarrow>
          m\<lparr>promises := promises m @
                [\<lparr>p_server = serverName,
                  p_state = Rejected (unknown_stdio_server stdioServers serverName)\<rparr>]\<rparr>
      | Some cfg \<Rightarrow>
          let transport = next_ref m; client = next_ref m + 1
          in m\<lparr>promises := promises m @ [\<lparr>p_server = serverName, p_state = Pending client transport\<rparr>],
                next_ref := next_ref m + 2,
                trace := trace m @ [Connect serverName (command cfg) (args cfg) client transport]\<rparr>)"

text \<open>
  The rest of \<open>createClient\<close>, run when the connect of promise \<open>p\<close> settles (\<open>None\<close>:
  connected; \<open>Some e\<close>: it threw \<open>e\<close>).
\<close>

definition createClient_end :: "nat \<Rightarrow> js_error option \<Rightarrow> StdioClientManager \<Rightarrow> StdioClientManager" where
  "createClient_end p connected m =
     (if p < length (promises m) then
        (case p_state (promises m ! p) of
           Pending client transport \<Rightarrow>
             (case connected of
                None \<Rightarrow>
                  m\<lparr>clients := (clients m)(p_server (promises m ! p) \<mapsto> client),
                    transports := (transports m)(p_server (promises m ! p) \<mapsto> transport),
                    promises := (promises m)[p := (promises m ! p)\<lparr>p_state := Fulfilled client\<rparr>]\<rparr>
              | Some e \<Rightarrow>
                  m\<lparr>promises := (promises m)[p := (promises m ! p)\<lparr>p_state := Rejected e\<rparr>]\<rparr>)
         | _ \<Rightarrow> m)
      else m)"

text \<open>
  \<open>getClient\<close> up to its first suspension. The caller gets the cached client, or the
  promise already in \<open>initializing\<close>, or starts a creation and registers its promise.
\<close>

datatype getClient_return = Has_client ref | In_progress nat | Started nat

definition StdioClientManager_getClient ::
  "(string \<times> StdioServerConfig) list \<Rightarrow> string \<Rightarrow> StdioClientManager
     \<Rightarrow> getClient_return \<times> StdioClientManager" where
  "StdioClientManager_getClient stdioServers serverName m =
     (case clients m serverName of
        Some c \<Rightarrow> (Has_client c, m)
      | None \<Rightarrow>
          (case initializing m serverName of
             Some p \<Rightarrow> (In_progress p, m)
           | None \<Rightarrow>
               let m' = createClient_begin stdioServers serverName m
               in (Started (length (promises m)),
                   m'\<lparr>initializing := (initializing m')(serverName \<mapsto> length (promises m))\<rparr>)))"

text \<open>The starter's continuation after \<open>await initPromise\<close>, on either branch of the \<open>try\<close>.\<close>

definition getClient_resume :: "string \<Rightarrow> StdioClientManager \<Rightarrow> StdioClientManager" where
  "getClient_resume serverName m = m\<lparr>initializing := (initializing m)(serverName := None)\<rparr>"

text \<open>What a caller of \<open>getClient\<close> ends up with, read in the state \<open>m\<close>.\<close>

definition awaited :: "StdioClientManager \<Rightarrow> getClient_return \<Rightarrow> ref outcome" where
  "awaited m r =
     (case r of
        Has_client c \<Rightarrow> Returned c
      | In_progress p \<Rightarrow>
          (if p < length (promises m) then
             (case p_state (promises m ! p) of
                Fulfilled c \<Rightarrow> Returned c | Rejected e \<Rightarrow> Thrown e | Pending c t \<Rightarrow> Never_settles)
           else Never_settles)
      | Started p \<Rightarrow>
          (if p < length (promises m) then
             (case p_state (promises m ! p) of
                Fulfilled c \<Rightarrow> Returned c | Rejected e \<Rightarrow> Thrown e | Pending c t \<Rightarrow> Never_settles)
           else Never_settles))"

text \<open>\<open>n\<close> callers enter \<open>getClient\<close> for the same name before anything else runs.\<close>

fun getClient_times ::
  "(string \<times> StdioServerConfig) list \<Rightarrow> string \<Rightarrow> nat \<Rightarrow> StdioClientManager
     \<Rightarrow> getClient_return list \<times> StdioClientManager" where
  "getClient_times stdioServers serverName 0 m = ([], m)"
| "getClient_times stdioServers serverName (Suc n) m =
     (case StdioClientManager_getClient stdioServers serverName m of
        (r, m') \<Rightarrow>
          (case getClient_times stdioServers serverName n m' of
             (rs, m'') \<Rightarrow> (r # rs, m'')))"

text \<open>
  One caller run to completion: \<open>getClient\<close>, then the connect it waits for settles
  with \<open>connected\<close>, then the starter's continuation clears \<open>initializing\<close>.
\<close>

definition getClient_await ::
  "(string \<times> StdioServerConfig) list \<Rightarrow> string \<Rightarrow> js_error option \<Rightarrow> StdioClientManager
     \<Rightarrow> ref outcome \<times> StdioClientManager" where
  "getClient_await stdioServers serverName connected m =
     (case StdioClientManager_getClient stdioServers serverName m of
        (Has_client c, m') \<Rightarrow> (Returned c, m')
      | (In_progress p, m') \<Rightarrow>
          (let m'' = getClient_resume serverName (createClient_end p connected m')
           in (awaited m'' (In_progress p), m''))
      | (Started p, m') \<Rightarrow>
          (let m'' = getClient_resume serverName (createClient_end p connected m')
           in (awaited m'' (Started p), m'')))"

definition initializeServer ::
  "(string \<times> StdioServerConfig) list \<Rightarrow> string \<Rightarrow> js_error option \<Rightarrow> StdioClientManager
     \<Rightarrow> unit outcome \<times> StdioClientManager" where
  "initializeServer stdioServers serverName connected m =
     (case getClient_await stdioServers serverName connected m of
        (Returned c, m') \<Rightarrow> (Returned (), m')
      | (Thrown e, m') \<Rightarrow> (Thrown e, m')
      | (Never_settles, m') \<Rightarrow> (Never_settles, m'))"

text \<open>\<open>called\<close> is what the SDK's \<open>client.callTool\<close> gives back.\<close>

definition callMCPTool ::
  "js_builtins \<Rightarrow> (string \<times> StdioServerConfig) list \<Rightarrow> string \<Rightarrow> string \<Rightarrow> jsval
     \<Rightarrow> js_error option \<Rightarrow> js_error + jsval \<Rightarrow> StdioClientManager
     \<Rightarrow> jsval outcome \<times> StdioClientManager" where
  "callMCPTool b stdioServers serverName toolName arguments connected called m =
     (case getClient_await stdioServers serverName connected m of
        (Returned c, m') \<Rightarrow>
          (let m'' = m'\<lparr>trace := trace m' @ [Call_tool c toolName arguments]\<rparr>
           in case called of
                Inl e \<Rightarrow> (Thrown e, m'')
              | Inr result \<Rightarrow>
                  (case callMCPTool_extract b result of
                     Inl e \<Rightarrow> (Thrown e, m'')
                   | Inr v \<Rightarrow> (Returned v, m'')))
      | (Thrown e, m') \<Rightarrow> (Thrown e, m')
      | (Never_settles, m') \<Rightarrow> (Never_settles, m'))"

definition stdio_listTools ::
  "(string \<times> StdioServerConfig) list \<Rightarrow> string \<Rightarrow> js_error option \<Rightarrow> js_error + jsval
     \<Rightarrow> StdioClientManager \<Rightarrow> jsval outcome \<times> StdioClientManager" where
  "stdio_listTools stdioServers serverName connected listed m =
     (case getClient_await stdioServers serverName connected m of
        (Returned c, m') \<Rightarrow>
          (let m'' = m'\<lparr>trace := trace m' @ [List_tools c]\<rparr>
           in case listed of Inl e \<Rightarrow> (Thrown e, m'') | Inr v \<Rightarrow> (Returned v, m''))
      | (Thrown e, m') \<Rightarrow> (Thrown e, m')
      | (Never_settles, m') \<Rightarrow> (Never_settles, m'))"

text \<open>\<open>disconnect\<close>; \<open>closed\<close> is what \<open>client.close()\<close> does (\<open>Some e\<close>: it threw \<open>e\<close>).\<close>

definition StdioClientManager_disconnect ::
  "string \<Rightarrow> js_error option \<Rightarrow> StdioClientManager \<Rightarrow> StdioClientManager" where
  "StdioClientManager_disconnect serverName closed m =
     (case clients m serverName of
        Some client \<Rightarrow>
          m\<lparr>trace := trace m @ [Close client]
                 @ (case closed of None \<Rightarrow> [] | Some e \<Rightarrow> [Console_error (''Error closing '' @ serverName @ '':'') e]),
            clients := (clients m)(serverName := None),
            transports := (transports m)(serverName := None)\<rparr>
      | None \<Rightarrow> m)"

text \<open>
  A name outside the registry has no cached client, and a promise registered for it is
  the rejected promise of \<open>createClient\<close>: true of the empty manager, and kept by every
  operation on a name that \<open>Object.prototype\<close> does not define.
\<close>

definition stdio_cache_ok :: "(string \<times> StdioServerConfig) list \<Rightarrow> StdioClientManager \<Rightarrow> bool" where
  "stdio_cache_ok stdioServers m =
     (\<forall>s. map_of stdioServers s = None \<longrightarrow>
        clients m s = None \<and>
        (\<forall>p. initializing m s = Some p \<longrightarrow>
           p < length (promises m) \<and>
           promises m ! p =
             \<lparr>p_server = s, p_state = Rejected (unknown_stdio_server stdioServers s)\<rparr>) \<and>
        (\<forall>p < length (promises m). p_server (promises m ! p) = s \<longrightarrow>
           (\<forall>c t. p_state (promises m ! p) \<noteq> Pending c t)))"

section \<open>The stdio wrapper for Codex CLI (polydev-stdio-wrapper.js, v2.1)\<close>

definition TOOLS :: jsval where
  "TOOLS =
     JArr [
       JObj [(''name'', JStr ''get_perspectives''),
             (''description'', JStr ''Get multiple AI perspectives on a prompt using Polydev (GPT-4, Claude, Gemini, Grok)''),
             (''inputSchema'',
                JObj [(''type'', JStr ''object''),
                      (''properties'',
                         JObj [(''prompt'',
                                  JObj [(''type'', JStr ''string''),
                                        (''description'', JStr ''The prompt to get perspectives on'')]),
                               (''models'',
                                  JObj [(''type'', JStr ''array''),
                                        (''items'', JObj [(''type'', JStr ''string'')]),
                                        (''description'', JStr ''Optional: specific models to use'')])]),
                      (''required'', JArr [JStr ''prompt''])])],
       JObj [(''name'', JStr ''list_available_models''),
             (''description'', JStr ''List all available AI models''),
             (''inputSchema'',
                JObj [(''type'', JStr ''object''),
                      (''properties'', JObj []),
                      (''required'', JArr [])])]]"

text \<open>
  What \<open>forward\<close> does to the network: the POST of the request, and the
  \<open>controller.abort()\<close> of the 180000 ms timer when it fires.
\<close>

datatype net_event = Posted jsval | Aborted

definition timeout_ms :: nat where
  "timeout_ms = 180000"

text \<open>
  The timer is cleared only after \<open>await response.text()\<close>, so it fires unless the
  exchange (failure, or response with its body read) completes before it.
\<close>

fun timer_fires :: "net_reply \<Rightarrow> bool" where
  "timer_fires No_reply = True"
| "timer_fires (Net_failure d e) = (\<not> d < timeout_ms)"
| "timer_fires (Reply d status body) = (\<not> d < timeout_ms)"

text \<open>The \<open>try\<close> block of \<open>forward\<close>; an aborted \<open>fetch\<close> rejects with an \<open>AbortError\<close>.\<close>

definition forward_try :: "js_builtins \<Rightarrow> net_reply \<Rightarrow> js_error + jsval" where
  "forward_try b reply =
     (if timer_fires reply then Inl (AbortError ''This operation was aborted'')
      else
        (case reply of
           No_reply \<Rightarrow> Inl (AbortError ''This operation was aborted'')
         | Net_failure d e \<Rightarrow> Inl e
         | Reply d status body \<Rightarrow>
             (case JSON_parse b body of
                Inl m \<Rightarrow> Inl (Error (''Invalid JSON from server: '' @ take 200 body))
              | Inr json \<Rightarrow>
                  if \<not> response_ok status then
                    Inl (Error (''Remote MCP error '' @ to_string b (JNum (int status)) @ '': ''
                                 @ take 200 body))
                  else Inr json)))"

definition forward :: "js_builtins \<Rightarrow> net_reply \<Rightarrow> jsval \<Rightarrow> net_event list \<times> (js_error + jsval)" where
  "forward b reply request =
     (Posted request # (if timer_fires reply then [Aborted] else []),
      (case forward_try b reply of
         Inr json \<Rightarrow> Inr json
       | Inl err \<Rightarrow>
           if err_name err = ''AbortError'' then Inl (Error ''Request timed out after 180 seconds'')
           else Inl err))"

text \<open>Reading a property of \<open>request || {}\<close> by destructuring: never of a nullish value.\<close>

fun field :: "jsval \<Rightarrow> string \<Rightarrow> jsval" where
  "field (JObj kvs) k = (case map_of kvs k of None \<Rightarrow> JUndefined | Some v \<Rightarrow> v)"
| "field v k = JUndefined"

definition result_envelope :: "jsval \<Rightarrow> jsval \<Rightarrow> jsval" where
  "result_envelope ident r = JObj [(''jsonrpc'', JStr ''2.0''), (''id'', ident), (''result'', r)]"

definition error_envelope :: "jsval \<Rightarrow> int \<Rightarrow> string \<Rightarrow> jsval" where
  "error_envelope ident code msg =
     JObj [(''jsonrpc'', JStr ''2.0''), (''id'', ident),
           (''error'', JObj [(''code'', JNum code), (''message'', JStr msg)])]"

text \<open>
  \<open>handle\<close>: the reply envelope, \<open>null\<close> for "send nothing", or a thrown error; with
  what it did to the network. \<open>reply\<close> is what the network does if the request is
  forwarded.
\<close>

definition handle :: "js_builtins \<Rightarrow> net_reply \<Rightarrow> jsval \<Rightarrow> net_event list \<times> (js_error + jsval)" where
  "handle b reply request =
     (let r = (if truthy request then request else JObj []);
          method = field r ''method'';
          ident = field r ''id''
      in if method = JStr ''initialize'' then
           ([], Inr (result_envelope ident
                   (JObj [(''protocolVersion'', JStr ''2025-06-18''),
                          (''capabilities'', JObj [(''tools'', JObj [])]),
                          (''serverInfo'', JObj [(''name'', JStr ''polydev-stdio''),
                                                 (''version'', JStr ''2.1.0'')])])))
         else if method = JStr ''notifications/initialized'' then ([], Inr JNull)
         else if method = JStr ''ping'' then ([], Inr (result_envelope ident (JObj [])))
         else if method = JStr ''tools/list'' then
           ([], Inr (result_envelope ident (JObj [(''tools'', TOOLS)])))
         else if method = JStr ''tools/call'' then forward b reply request
         else if truthy method then
           ([], Inr (error_envelope ident (- 32601) (''Method not found: '' @ to_string b method)))
         else ([], Inr (error_envelope ident (- 32600) ''Invalid request'')))"

text \<open>The process: its counters, its input buffer, what it wrote to stdout, its exit.\<close>

record wrapper =
  pendingRequests :: int
  stdinEnded :: bool
  buffer :: string
  stdout :: "jsval list"
  net_log :: "net_event list"
  exit_code :: "int option"

definition new_wrapper :: wrapper where
  "new_wrapper =
     \<lparr>pendingRequests = 0, stdinEnded = False, buffer = [], stdout = [], net_log = [],
      exit_code = None\<rparr>"

definition respond :: "jsval \<Rightarrow> wrapper \<Rightarrow> wrapper" where
  "respond message w = w\<lparr>stdout := stdout w @ [message]\<rparr>"

definition checkExit :: "wrapper \<Rightarrow> wrapper" where
  "checkExit w = (if stdinEnded w \<and> pendingRequests w = 0 then w\<lparr>exit_code := Some 0\<rparr> else w)"

text \<open>\<open>String.prototype.trim\<close> on strings of one-byte characters.\<close>

definition js_space :: "char \<Rightarrow> bool" where
  "js_space c = (c \<in> {CHR 0x09, CHR 0x0A, CHR 0x0B, CHR 0x0C, CHR 0x0D, CHR 0x20, CHR 0xA0})"

definition trim :: "string \<Rightarrow> string" where
  "trim s = rev (dropWhile js_space (rev (dropWhile js_space s)))"

text \<open>
  \<open>processLine\<close>, run to completion. \<open>reply\<close> is what the network does with the
  exchange this line starts, if it starts one.
\<close>

definition processLine_catch :: "js_error \<Rightarrow> wrapper \<Rightarrow> wrapper" where
  "processLine_catch err w = respond (error_envelope JNull (- 32603) (err_message err)) w"

definition processLine :: "js_builtins \<Rightarrow> net_reply \<Rightarrow> string \<Rightarrow> wrapper \<Rightarrow> wrapper" where
  "processLine b reply line w =
     (if \<not> truthy (JStr (trim line)) then w
      else
        let w1 = w\<lparr>pendingRequests := pendingRequests w + 1\<rparr>;
            w2 = (case JSON_parse b line of
                    Inl m \<Rightarrow> processLine_catch (SyntaxError m) w1
                  | Inr request \<Rightarrow>
                      (case handle b reply request of
                         (evs, Inr response) \<Rightarrow>
                           (let w' = w1\<lparr>net_log := net_log w1 @ evs\<rparr>
                            in if response \<noteq> JNull then respond response w' else w')
                       | (evs, Inl err) \<Rightarrow>
                           processLine_catch err (w1\<lparr>net_log := net_log w1 @ evs\<rparr>)))
        in checkExit (w2\<lparr>pendingRequests := pendingRequests w2 - 1\<rparr>))"

text \<open>
  The \<open>data\<close> handler calls \<open>processLine(line)\<close> for every complete line of the chunk
  and does not await it. Each call runs synchronously up to its first suspension: a
  blank line returns; a line that \<open>JSON.parse\<close> rejects goes through \<open>catch\<close> and
  \<open>finally\<close> at once, so its error response is written during the call; for any
  other line \<open>handle(request)\<close> is called, which for \<open>tools/call\<close> runs \<open>forward\<close> up
  to its \<open>await fetch\<close> (the POST is issued) and for every other request returns its
  envelope, and \<open>processLine\<close> suspends at \<open>await handle(request)\<close>.
\<close>

definition forwards :: "jsval \<Rightarrow> bool" where
  "forwards request =
     (field (if truthy request then request else JObj []) ''method'' = JStr ''tools/call'')"

text \<open>
  A suspended \<open>processLine\<close>: the promise of its \<open>handle\<close> is already settled
  (\<open>Answered\<close>), or it waits for the exchange \<open>forward\<close> has started (\<open>Forwarded\<close>, the
  request and what the network does with it).
\<close>

datatype suspended = Answered "js_error + jsval" | Forwarded jsval net_reply

definition processLine_start ::
  "js_builtins \<Rightarrow> net_reply \<Rightarrow> string \<Rightarrow> wrapper \<Rightarrow> wrapper \<times> suspended option" where
  "processLine_start b reply line w =
     (if \<not> truthy (JStr (trim line)) then (w, None)
      else
        let w1 = w\<lparr>pendingRequests := pendingRequests w + 1\<rparr>
        in (case JSON_parse b line of
              Inl m \<Rightarrow>
                (let w2 = processLine_catch (SyntaxError m) w1
                 in (checkExit (w2\<lparr>pendingRequests := pendingRequests w2 - 1\<rparr>), None))
            | Inr request \<Rightarrow>
                if forwards request then
                  (w1\<lparr>net_log := net_log w1 @ [Posted request]\<rparr>, Some (Forwarded request reply))
                else (w1, Some (Answered (snd (handle b reply request))))))"

text \<open>
  The rest of \<open>processLine\<close>, run when what it waits for has settled: for a forwarded
  request the rest of \<open>forward\<close> first (the timer aborts the \<open>fetch\<close> if it fired), then
  the response is written, or the error response of \<open>catch\<close>, then \<open>finally\<close>.
\<close>

definition processLine_resume :: "js_builtins \<Rightarrow> suspended \<Rightarrow> wrapper \<Rightarrow> wrapper" where
  "processLine_resume b s w =
     (let w' = (case s of
                  Answered res \<Rightarrow> w
                | Forwarded request reply \<Rightarrow>
                    w\<lparr>net_log := net_log w @ (if timer_fires reply then [Aborted] else [])\<rparr>);
          w2 = (case (case s of
                        Answered res \<Rightarrow> res
                      | Forwarded request reply \<Rightarrow> snd (forward b reply request)) of
                  Inr response \<Rightarrow> if response \<noteq> JNull then respond response w' else w'
                | Inl err \<Rightarrow> processLine_catch err w')
      in checkExit (w2\<lparr>pendingRequests := pendingRequests w2 - 1\<rparr>))"

text \<open>
  The loop of the \<open>data\<close> handler: every line is started, in order; the suspended
  calls are collected. Each line comes with what the network does with the exchange it
  starts, if it starts one.
\<close>

fun start_lines ::
  "js_builtins \<Rightarrow> (string \<times> net_reply) list \<Rightarrow> wrapper \<times> suspended list
     \<Rightarrow> wrapper \<times> suspended list" where
  "start_lines b [] st = st"
| "start_lines b (l # ls) st =
     (case processLine_start b (snd l) (fst l) (fst st) of
        (w', s) \<Rightarrow> start_lines b ls (w', snd st @ (case s of None \<Rightarrow> [] | Some x \<Rightarrow> [x])))"

text \<open>
  When the handler has returned, the microtask queue is drained before any other
  event: the calls whose \<open>handle\<close> has already returned resume, in the order of their
  lines. The forwarded ones stay suspended.
\<close>

fun run_microtasks :: "js_builtins \<Rightarrow> suspended list \<Rightarrow> wrapper \<Rightarrow> wrapper \<times> suspended list" where
  "run_microtasks b [] w = (w, [])"
| "run_microtasks b (Answered res # ss) w =
     run_microtasks b ss (processLine_resume b (Answered res) w)"
| "run_microtasks b (Forwarded request reply # ss) w =
     (case run_microtasks b ss w of (w', fs) \<Rightarrow> (w', Forwarded request reply # fs))"

text \<open>
  The process between events: the wrapper and the calls in flight. \<open>on_lines\<close> is the
  handler on the lines of one chunk, \<open>on_data\<close> the handler on the chunk (\<open>net i\<close>
  answers line \<open>i\<close> of the chunk), \<open>exchange_completes i\<close> the event that the
  exchange of the \<open>i\<close>-th call in flight has settled (the network decides which one is
  next).
\<close>

definition on_lines ::
  "js_builtins \<Rightarrow> (string \<times> net_reply) list \<Rightarrow> wrapper \<times> suspended list
     \<Rightarrow> wrapper \<times> suspended list" where
  "on_lines b ls st =
     (let started = start_lines b ls (fst st, []);
          settled = run_microtasks b (snd started) (fst started)
      in (fst settled, snd st @ snd settled))"

fun split_on :: "char \<Rightarrow> string \<Rightarrow> string list" where
  "split_on c [] = [[]]"
| "split_on c (x # xs) =
     (if x = c then [] # split_on c xs
      else (case split_on c xs of [] \<Rightarrow> [[x]] | y # ys \<Rightarrow> (x # y) # ys))"

definition on_data ::
  "js_builtins \<Rightarrow> network \<Rightarrow> string \<Rightarrow> wrapper \<times> suspended list \<Rightarrow> wrapper \<times> suspended list" where
  "on_data b net chunk st =
     (let lines = split_on (CHR 0x0A) (buffer (fst st) @ chunk)
      in on_lines b (zip (butlast lines) (map net [0..<length (butlast lines)]))
           ((fst st)\<lparr>buffer := last lines\<rparr>, snd st))"

definition exchange_completes ::
  "js_builtins \<Rightarrow> nat \<Rightarrow> wrapper \<times> suspended list \<Rightarrow> wrapper \<times> suspended list" where
  "exchange_completes b i st =
     (if i < length (snd st) then
        (processLine_resume b (snd st ! i) (fst st), take i (snd st) @ drop (Suc i) (snd st))
      else st)"

definition on_end :: "wrapper \<Rightarrow> wrapper" where
  "on_end w = checkExit (w\<lparr>stdinEnded := True\<rparr>)"

text \<open>
  What one line adds to stdout and to the network, read off \<open>processLine\<close>: it depends
  on the line and on the network only, not on the state of the process.
\<close>

definition line_responses :: "js_builtins \<Rightarrow> net_reply \<Rightarrow> string \<Rightarrow> jsval list" where
  "line_responses b reply line =
     (if trim line = [] then []
      else
        (case JSON_parse b line of
           Inl m \<Rightarrow> [error_envelope JNull (- 32603) m]
         | Inr request \<Rightarrow>
             (case snd (handle b reply request) of
                Inr response \<Rightarrow> if response \<noteq> JNull then [response] else []
              | Inl err \<Rightarrow> [error_envelope JNull (- 32603) (err_message err)])))"

definition line_requests :: "js_builtins \<Rightarrow> net_reply \<Rightarrow> string \<Rightarrow> net_event list" where
  "line_requests b reply line =
     (if trim line = [] then []
      else (case JSON_parse b line of Inl m \<Rightarrow> [] | Inr request \<Rightarrow> fst (handle b reply request)))"

text \<open>
  The same, read off \<open>processLine_start\<close> and \<open>processLine_resume\<close>: the response a
  line gets while the handler runs, the call it leaves suspended, and the response a
  suspended call writes when it resumes.
\<close>

definition early_response :: "js_builtins \<Rightarrow> string \<Rightarrow> jsval list" where
  "early_response b line =
     (if trim line = [] then []
      else (case JSON_parse b line of
              Inl m \<Rightarrow> [error_envelope JNull (- 32603) m]
            | Inr request \<Rightarrow> []))"

definition suspension :: "js_builtins \<Rightarrow> net_reply \<Rightarrow> string \<Rightarrow> suspended list" where
  "suspension b reply line =
     (if trim line = [] then []
      else (case JSON_parse b line of
              Inl m \<Rightarrow> []
            | Inr request \<Rightarrow>
                [if forwards request then Forwarded request reply
                 else Answered (snd (handle b reply request))]))"

definition resume_response :: "js_builtins \<Rightarrow> suspended \<Rightarrow> jsval list" where
  "resume_response b s =
     (case (case s of
              Answered res \<Rightarrow> res
            | Forwarded request reply \<Rightarrow> snd (forward b reply request)) of
        Inr response \<Rightarrow> if response \<noteq> JNull then [response] else []
      | Inl err \<Rightarrow> [error_envelope JNull (- 32603) (err_message err)])"

fun is_answered :: "suspended \<Rightarrow> bool" where
  "is_answered (Answered res) = True"
| "is_answered (Forwarded request reply) = False"

text \<open>
  For the lines of a chunk: the responses written while the handler runs, the
  responses written by the microtasks after it, and the calls left in flight.
\<close>

definition early_responses :: "js_builtins \<Rightarrow> (string \<times> net_reply) list \<Rightarrow> jsval list" where
  "early_responses b ls = concat (map (\<lambda>l. early_response b (fst l)) ls)"

definition suspensions :: "js_builtins \<Rightarrow> (string \<times> net_reply) list \<Rightarrow> suspended list" where
  "suspensions b ls = concat (map (\<lambda>l. suspension b (snd l) (fst l)) ls)"

definition microtask_responses :: "js_builtins \<Rightarrow> (string \<times> net_reply) list \<Rightarrow> jsval list" where
  "microtask_responses b ls =
     concat (map (resume_response b) (filter is_answered (suspensions b ls)))"

definition left_in_flight :: "js_builtins \<Rightarrow> (string \<times> net_reply) list \<Rightarrow> suspended list" where
  "left_in_flight b ls = filter (\<lambda>s. \<not> is_answered s) (suspensions b ls)"

fun posted_request :: "suspended \<Rightarrow> net_event list" where
  "posted_request (Answered res) = []"
| "posted_request (Forwarded request reply) = [Posted request]"

subsection \<open>The first generation of the wrapper (v1.0)\<close>

text \<open>Its \<open>forward\<close> sets no timer; its \<open>handle\<close> forwards every method it does not answer itself.\<close>

definition forward_v1 :: "js_builtins \<Rightarrow> net_reply \<Rightarrow> jsval \<Rightarrow> net_event list \<times> jsval outcome" where
  "forward_v1 b reply request =
     ([Posted request],
      (case reply of
         No_reply \<Rightarrow> Never_settles
       | Net_failure d e \<Rightarrow> Thrown e
       | Reply d status body \<Rightarrow>
           (case JSON_parse b body of
              Inl m \<Rightarrow> Thrown (Error (''Invalid JSON from server: '' @ take 200 body))
            | Inr json \<Rightarrow>
                if \<not> response_ok status then
                  Thrown (Error (''Remote MCP error '' @ to_string b (JNum (int status)) @ '': ''
                                  @ take 200 body))
                else Returned json)))"

definition handle_v1 :: "js_builtins \<Rightarrow> net_reply \<Rightarrow> jsval \<Rightarrow> net_event list \<times> jsval outcome" where
  "handle_v1 b reply request =
     (let r = (if truthy request then request else JObj []);
          method = field r ''method'';
          ident = field r ''id''
      in if method = JStr ''initialize'' then
           ([], Returned (result_envelope ident
                   (JObj [(''protocolVersion'', JStr ''2024-11-05''),
                          (''capabilities'', JObj [(''tools'', JObj [])]),
                          (''serverInfo'', JObj [(''name'', JStr ''polydev-stdio''),
                                                 (''version'', JStr ''1.0.0'')])])))
         else if method = JStr ''tools/list'' then
           ([], Returned (result_envelope ident (JObj [(''tools'', TOOLS)])))
         else if truthy method then forward_v1 b reply request
         else ([], Returned (error_envelope ident (- 32601) ''Method not found'')))"

section \<open>Concrete surroundings for the worked examples\<close>

text \<open>
  A finite part of the graph of \<open>JSON.parse\<close> and of \<open>ToString\<close>: right on the strings
  and values listed, which are the only ones the examples apply them to.
\<close>

definition sample_JSON_parse :: "string \<Rightarrow> string + jsval" where
  \<open>sample_JSON_parse s =
     (if s = ''{"x":1}'' then Inr (JObj [(''x'', JNum 1)])
      else if s = ''{"jsonrpc":"2.0","id":1,"result":{}}'' then
        Inr (JObj [(''jsonrpc'', JStr ''2.0''), (''id'', JNum 1), (''result'', JObj [])])
      else if s = ''{"jsonrpc":"2.0","id":2,"result":{"content":[]}}'' then
        Inr (JObj [(''jsonrpc'', JStr ''2.0''), (''id'', JNum 2),
                   (''result'', JObj [(''content'', JArr [])])])
      else if s = ''{"jsonrpc":"2.0","method":"notifications/cancelled","params":{"requestId":7}}'' then
        Inr (JObj [(''jsonrpc'', JStr ''2.0''), (''method'', JStr ''notifications/cancelled''),
                   (''params'', JObj [(''requestId'', JNum 7)])])
      else if s = ''{"jsonrpc":"2.0","id":5,"method":"ping"}'' then
        Inr (JObj [(''jsonrpc'', JStr ''2.0''), (''id'', JNum 5), (''method'', JStr ''ping'')])
      else if s = ''{"jsonrpc":"2.0","id":3,"method":"tools/call","params":{"name":"list_available_models","arguments":{}}}'' then
        Inr (JObj [(''jsonrpc'', JStr ''2.0''), (''id'', JNum 3), (''method'', JStr ''tools/call''),
                   (''params'', JObj [(''name'', JStr ''list_available_models''),
                                      (''arguments'', JObj [])])])
      else Inl ''Unexpected token'')\<close>

definition sample_builtins :: js_builtins where
  "sample_builtins =
     \<lparr>JSON_parse = sample_JSON_parse,
      ToString = (\<lambda>v. if v = JNum 500 then ''500'' else ''undefined''),
      nullish_message =
        (\<lambda>v k. ''Cannot read properties of '' @ (if v = JNull then ''null'' else ''undefined'')
                 @ '' (reading '' @ [CHR 0x27] @ k @ [CHR 0x27] @ '')'')\<rparr>"

definition sample_httpServers :: "(string \<times> HTTPServerConfig) list" where
  "sample_httpServers =
     [(''vercel'', \<lparr>url = Some ''https://mcp.vercel.com'',
                    headers = [''Content-Type'' \<mapsto> ''application/json'', ''Authorization'' \<mapsto> ''Bearer '']\<rparr>),
      (''stripe'', \<lparr>url = Some ''https://mcp.stripe.com'',
                    headers = [''Content-Type'' \<mapsto> ''application/json'', ''Authorization'' \<mapsto> ''Bearer '']\<rparr>)]"

definition sample_stdioServers :: "(string \<times> StdioServerConfig) list" where
  "sample_stdioServers =
     [(''memory'', \<lparr>command = Some ''npx'', args = Some [''-y'', ''@modelcontextprotocol/server-memory''],
                    env = Map.empty\<rparr>),
      (''git'', \<lparr>command = Some ''uvx'', args = Some [''mcp-server-git''], env = Map.empty\<rparr>)]"

text \<open>
  Networks: one that never answers, one that answers every exchange at once with an
  empty result, and one on which every \<open>fetch\<close> is rejected at once.
\<close>

definition rejecting_network :: network where
  "rejecting_network n = Net_failure 0 (TypeError ''Failed to parse URL from undefined'')"

definition silent_network :: network where
  "silent_network n = No_reply"

definition prompt_network :: network where
  \<open>prompt_network n = Reply 5 200 ''{"jsonrpc":"2.0","id":1,"result":{}}''\<close>

section \<open>The normaliser as the specification words it\<close>

text \<open>
  The vocabulary of the specification: the content list a result carries, and an entry
  being text-typed.
\<close>

definition content_list :: "jsval \<Rightarrow> jsval list option" where
  "content_list result =
     (case result of
        JObj kvs \<Rightarrow> (case map_of kvs ''content'' of Some (JArr es) \<Rightarrow> Some es | _ \<Rightarrow> None)
      | _ \<Rightarrow> None)"

definition text_typed :: "jsval \<Rightarrow> bool" where
  "text_typed entry = (field entry ''type'' = JStr ''text'')"

text \<open>
  The three cases in the specification's words: exactly one text-typed entry; more than
  one entry or entries of non-text kind; otherwise the raw result.
\<close>

definition normalize_as_specified :: "js_builtins \<Rightarrow> jsval \<Rightarrow> jsval" where
  "normalize_as_specified b result =
     (case content_list result of
        Some es \<Rightarrow>
          if length es = 1 \<and> text_typed (hd es) then
            (case JSON_parse_value b (field (hd es) ''text'') of
               Inr v \<Rightarrow> v
             | Inl m \<Rightarrow> field (hd es) ''text'')
          else if 1 < length es \<or> (\<exists>e \<in> set es. \<not> text_typed e) then JArr es
          else result
      | None \<Rightarrow> result)"

section \<open>Properties of the normalisers\<close>

lemma get_prop_field: "v \<noteq> JNull \<Longrightarrow> v \<noteq> JUndefined \<Longrightarrow> get_prop b v k = Inr (field v k)"
  by (cases v) simp_all

lemma content_list_SomeD:
  "content_list result = Some es \<Longrightarrow>
     \<exists>kvs. result = JObj kvs \<and> map_of kvs ''content'' = Some (JArr es)"
  by (auto simp: content_list_def split: jsval.splits option.splits)

lemma text_typed_not_nullish: "text_typed e \<Longrightarrow> e \<noteq> JNull \<and> e \<noteq> JUndefined"
  by (auto simp: text_typed_def)

lemma map_of_has_key: "map_of kvs k = Some v \<Longrightarrow> k \<in> fst ` set kvs"
  by (metis domI dom_map_of_conv_image_fst)

lemma extract_single_text:
  assumes "content_list result = Some [e]" "text_typed e"
  shows "callMCPTool_extract b result = Inr (parse_or_text b (field e ''text''))"
    and "callTool_extract b result = Inr (parse_or_text b (field e ''text''))"
proof -
  obtain kvs where r: "result = JObj kvs" "map_of kvs ''content'' = Some (JArr [e])"
    using content_list_SomeD[OF assms(1)] by blast
  have e: "get_prop b e ''type'' = Inr (JStr ''text'')"
    "get_prop b e ''text'' = Inr (field e ''text'')"
    using assms(2) text_typed_not_nullish[OF assms(2)]
    by (simp_all add: get_prop_field text_typed_def)
  show "callMCPTool_extract b result = Inr (parse_or_text b (field e ''text''))"
    using r e by (simp add: callMCPTool_extract_def)
  show "callTool_extract b result = Inr (parse_or_text b (field e ''text''))"
    using r e map_of_has_key[OF r(2)] by (simp add: callTool_extract_def)
qed

lemma extract_other_list:
  assumes "content_list result = Some es"
    and "\<not> (\<exists>e. es = [e] \<and> text_typed e)"
    and "es \<noteq> [JNull]" "es \<noteq> [JUndefined]"
  shows "callMCPTool_extract b result = Inr (JArr es)"
    and "callTool_extract b result = Inr (JArr es)"
proof -
  obtain kvs where r: "result = JObj kvs" "map_of kvs ''content'' = Some (JArr es)"
    using content_list_SomeD[OF assms(1)] by blast
  have single: "\<And>e. es = [e] \<Longrightarrow>
      get_prop b e ''type'' = Inr (field e ''type'') \<and> field e ''type'' \<noteq> JStr ''text''"
    using assms(2,3,4) by (auto simp: get_prop_field text_typed_def)
  show "callMCPTool_extract b result = Inr (JArr es)"
    using r single by (auto simp: callMCPTool_extract_def split: list.splits)
  show "callTool_extract b result = Inr (JArr es)"
    using r single map_of_has_key[OF r(2)]
    by (auto simp: callTool_extract_def split: list.splits)
qed

lemma extract_nullish_entry:
  assumes "content_list result = Some [e]" "e = JNull \<or> e = JUndefined"
  shows "callMCPTool_extract b result = Inl (TypeError (nullish_message b e ''type''))"
    and "callTool_extract b result = Inl (TypeError (nullish_message b e ''type''))"
proof -
  obtain kvs where r: "result = JObj kvs" "map_of kvs ''content'' = Some (JArr [e])"
    using content_list_SomeD[OF assms(1)] by blast
  have e: "get_prop b e ''type'' = Inl (TypeError (nullish_message b e ''type''))"
    using assms(2) by auto
  show "callMCPTool_extract b result = Inl (TypeError (nullish_message b e ''type''))"
    using r e by (simp add: callMCPTool_extract_def)
  show "callTool_extract b result = Inl (TypeError (nullish_message b e ''type''))"
    using r e map_of_has_key[OF r(2)] by (simp add: callTool_extract_def)
qed

lemma extract_nullish_result:
  "result = JNull \<or> result = JUndefined \<Longrightarrow>
     callMCPTool_extract b result = Inl (TypeError (nullish_message b result ''content''))"
  by (auto simp: callMCPTool_extract_def)

lemma extract_no_list_stdio:
  assumes "content_list result = None" "result \<noteq> JNull" "result \<noteq> JUndefined"
  shows "callMCPTool_extract b result = Inr result"
  using assms
  by (cases result)
    (auto simp: callMCPTool_extract_def content_list_def split: option.splits jsval.splits)

lemma extract_no_list_http:
  assumes "content_list result = None"
  shows "callTool_extract b result =
           Inr (if has_key ''content'' result then field result ''content'' else result)"
  using assms
  by (cases result)
    (auto simp: callTool_extract_def content_list_def
          split: option.splits jsval.splits list.splits)

text \<open>
  C2, as the claim states it, fails: an empty content list is neither "more than one
  entry" nor "entries of non-text kind", so the claim returns the raw result for it,
  while \<open>callMCPTool\<close> returns the (empty) list; and \<open>HTTPMCPClient.callTool\<close> returns the
  value of \<open>content\<close> also when that value is no list.
\<close>

theorem normalizer_counterexample:
  "callMCPTool_extract sample_builtins (JObj [(''content'', JArr [])])
     \<noteq> Inr (normalize_as_specified sample_builtins (JObj [(''content'', JArr [])]))
   \<and> callTool_extract sample_builtins (JObj [(''content'', JStr ''done'')])
     \<noteq> Inr (normalize_as_specified sample_builtins (JObj [(''content'', JStr ''done'')]))"
  by (simp add: callMCPTool_extract_def callTool_extract_def normalize_as_specified_def
        content_list_def)

text \<open>
  C2, amended. For a result that carries a content list: one text-typed entry is parsed
  as JSON, and the raw text is returned when parsing fails; one entry that is \<open>null\<close>
  or \<open>undefined\<close> makes the read of its \<open>type\<close> throw, and the normaliser fails with
  that \<open>TypeError\<close>; every other list (empty, longer, or one entry other than \<open>null\<close>
  and \<open>undefined\<close> that is not text-typed) is returned unmodified, by both normalisers.
  For a result that carries no content list, \<open>callMCPTool\<close> returns the raw result,
  except that on a result that is itself \<open>null\<close> or \<open>undefined\<close> the read of its
  \<open>content\<close> throws and it fails with that \<open>TypeError\<close>; \<open>HTTPMCPClient.callTool\<close>
  returns the value of the \<open>content\<close> property when the result has one and the raw
  result otherwise. The cases cover every result.
\<close>

theorem normalizer_behaviour:
  "(content_list result = Some [e] \<and> text_typed e \<longrightarrow>
      callMCPTool_extract b result =
        Inr (case JSON_parse_value b (field e ''text'') of Inr v \<Rightarrow> v | Inl m \<Rightarrow> field e ''text'')
      \<and> callTool_extract b result =
        Inr (case JSON_parse_value b (field e ''text'') of Inr v \<Rightarrow> v | Inl m \<Rightarrow> field e ''text''))
   \<and> (content_list result = Some [e] \<and> (e = JNull \<or> e = JUndefined) \<longrightarrow>
      callMCPTool_extract b result = Inl (TypeError (nullish_message b e ''type''))
      \<and> callTool_extract b result = Inl (TypeError (nullish_message b e ''type'')))
   \<and> (content_list result = Some es \<and> \<not> (\<exists>x. es = [x] \<and> text_typed x)
        \<and> es \<noteq> [JNull] \<and> es \<noteq> [JUndefined] \<longrightarrow>
      callMCPTool_extract b result = Inr (JArr es) \<and> callTool_extract b result = Inr (JArr es))
   \<and> (content_list result = None \<and> result \<noteq> JNull \<and> result \<noteq> JUndefined \<longrightarrow>
      callMCPTool_extract b result = Inr result)
   \<and> (result = JNull \<or> result = JUndefined \<longrightarrow>
      callMCPTool_extract b result = Inl (TypeError (nullish_message b result ''content'')))
   \<and> (content_list result = None \<longrightarrow>
      callTool_extract b result =
        Inr (if has_key ''content'' result then field result ''content'' else result))"
proof (intro conjI impI)
  assume h: "content_list result = Some [e] \<and> text_typed e"
  show "callMCPTool_extract b result =
        Inr (case JSON_parse_value b (field e ''text'') of Inr v \<Rightarrow> v | Inl m \<Rightarrow> field e ''text'')"
    using extract_single_text(1)[of result e b] h by (simp add: parse_or_text_def)
  show "callTool_extract b result =
        Inr (case JSON_parse_value b (field e ''text'') of Inr v \<Rightarrow> v | Inl m \<Rightarrow> field e ''text'')"
    using extract_single_text(2)[of result e b] h by (simp add: parse_or_text_def)
next
  assume h: "content_list result = Some [e] \<and> (e = JNull \<or> e = JUndefined)"
  show "callMCPTool_extract b result = Inl (TypeError (nullish_message b e ''type''))"
    using extract_nullish_entry(1)[of result e b] h by blast
  show "callTool_extract b result = Inl (TypeError (nullish_message b e ''type''))"
    using extract_nullish_entry(2)[of result e b] h by blast
next
  assume h: "content_list result = Some es \<and> \<not> (\<exists>x. es = [x] \<and> text_typed x)
        \<and> es \<noteq> [JNull] \<and> es \<noteq> [JUndefined]"
  show "callMCPTool_extract b result = Inr (JArr es)"
    using extract_other_list(1)[of result es b] h by blast
  show "callTool_extract b result = Inr (JArr es)"
    using extract_other_list(2)[of result es b] h by blast
next
  assume "content_list result = None \<and> result \<noteq> JNull \<and> result \<noteq> JUndefined"
  then show "callMCPTool_extract b result = Inr result"
    using extract_no_list_stdio by blast
next
  assume "result = JNull \<or> result = JUndefined"
  then show "callMCPTool_extract b result = Inl (TypeError (nullish_message b result ''content''))"
    by (rule extract_nullish_result)
next
  assume "content_list result = None"
  then show "callTool_extract b result =
        Inr (if has_key ''content'' result then field result ''content'' else result)"
    by (rule extract_no_list_http)
qed

text \<open>
  The amended claim at the inputs of the specification's own test: one text entry that
  is JSON, one text entry that is not, two text entries, and a result without content;
  and at a content list whose only entry is \<open>null\<close>, and at the result \<open>null\<close>.
\<close>

theorem normalizer_behaviour_witness:
  \<open>(callMCPTool_extract sample_builtins
      (JObj [(''content'', JArr [JObj [(''type'', JStr ''text''), (''text'', JStr ''{"x":1}'')]])])
     = Inr (JObj [(''x'', JNum 1)])
   \<and> callTool_extract sample_builtins
      (JObj [(''content'', JArr [JObj [(''type'', JStr ''text''), (''text'', JStr ''plain'')]])])
     = Inr (JStr ''plain'')
   \<and> callMCPTool_extract sample_builtins
      (JObj [(''content'', JArr [JObj [(''type'', JStr ''text''), (''text'', JStr ''a'')],
                                 JObj [(''type'', JStr ''text''), (''text'', JStr ''b'')]])])
     = Inr (JArr [JObj [(''type'', JStr ''text''), (''text'', JStr ''a'')],
                  JObj [(''type'', JStr ''text''), (''text'', JStr ''b'')]])
   \<and> callMCPTool_extract sample_builtins (JObj [(''isError'', JBool False)])
     = Inr (JObj [(''isError'', JBool False)])
   \<and> callTool_extract sample_builtins (JObj [(''isError'', JBool False)])
     = Inr (JObj [(''isError'', JBool False)]))
   \<and> (callMCPTool_extract sample_builtins (JObj [(''content'', JArr [JNull])])
     = Inl (TypeError (nullish_message sample_builtins JNull ''type''))
   \<and> callTool_extract sample_builtins (JObj [(''content'', JArr [JNull])])
     = Inl (TypeError (nullish_message sample_builtins JNull ''type''))
   \<and> callMCPTool_extract sample_builtins JNull
     = Inl (TypeError (nullish_message sample_builtins JNull ''content''))
   \<and> callTool_extract sample_builtins JNull = Inr JNull)\<close>
proof -
  let ?one = \<open>JObj [(''type'', JStr ''text''), (''text'', JStr ''{"x":1}'')]\<close>
  let ?plain = "JObj [(''type'', JStr ''text''), (''text'', JStr ''plain'')]"
  let ?two = "[JObj [(''type'', JStr ''text''), (''text'', JStr ''a'')],
               JObj [(''type'', JStr ''text''), (''text'', JStr ''b'')]]"
  let ?none = "JObj [(''isError'', JBool False)]"
  have a: "content_list (JObj [(''content'', JArr [?one])]) = Some [?one] \<and> text_typed ?one"
    by (simp add: content_list_def text_typed_def)
  have b: "content_list (JObj [(''content'', JArr [?plain])]) = Some [?plain] \<and> text_typed ?plain"
    by (simp add: content_list_def text_typed_def)
  have c: "content_list (JObj [(''content'', JArr ?two)]) = Some ?two
           \<and> \<not> (\<exists>x. ?two = [x] \<and> text_typed x) \<and> ?two \<noteq> [JNull] \<and> ?two \<noteq> [JUndefined]"
    by (simp add: content_list_def)
  have d: "content_list ?none = None \<and> ?none \<noteq> JNull \<and> ?none \<noteq> JUndefined"
    by (simp add: content_list_def)
  have n: "content_list (JObj [(''content'', JArr [JNull])]) = Some [JNull]"
    "content_list JNull = None"
    by (simp_all add: content_list_def)
  have first: \<open>callMCPTool_extract sample_builtins
      (JObj [(''content'', JArr [JObj [(''type'', JStr ''text''), (''text'', JStr ''{"x":1}'')]])])
     = Inr (JObj [(''x'', JNum 1)])
   \<and> callTool_extract sample_builtins
      (JObj [(''content'', JArr [JObj [(''type'', JStr ''text''), (''text'', JStr ''plain'')]])])
     = Inr (JStr ''plain'')
   \<and> callMCPTool_extract sample_builtins
      (JObj [(''content'', JArr [JObj [(''type'', JStr ''text''), (''text'', JStr ''a'')],
                                 JObj [(''type'', JStr ''text''), (''text'', JStr ''b'')]])])
     = Inr (JArr [JObj [(''type'', JStr ''text''), (''text'', JStr ''a'')],
                  JObj [(''type'', JStr ''text''), (''text'', JStr ''b'')]])
   \<and> callMCPTool_extract sample_builtins (JObj [(''isError'', JBool False)])
     = Inr (JObj [(''isError'', JBool False)])
   \<and> callTool_extract sample_builtins (JObj [(''isError'', JBool False)])
     = Inr (JObj [(''isError'', JBool False)])\<close>
    using normalizer_behaviour[of "JObj [(''content'', JArr [?one])]" ?one sample_builtins "[]"] a
      normalizer_behaviour[of "JObj [(''content'', JArr [?plain])]" ?plain sample_builtins "[]"] b
      normalizer_behaviour[of "JObj [(''content'', JArr ?two)]" "JBool True" sample_builtins ?two] c
      normalizer_behaviour[of ?none "JBool True" sample_builtins "[]"] d
    by (simp add: JSON_parse_value_def to_string_def sample_builtins_def sample_JSON_parse_def)
  have second: \<open>callMCPTool_extract sample_builtins (JObj [(''content'', JArr [JNull])])
     = Inl (TypeError (nullish_message sample_builtins JNull ''type''))
   \<and> callTool_extract sample_builtins (JObj [(''content'', JArr [JNull])])
     = Inl (TypeError (nullish_message sample_builtins JNull ''type''))
   \<and> callMCPTool_extract sample_builtins JNull
     = Inl (TypeError (nullish_message sample_builtins JNull ''content''))
   \<and> callTool_extract sample_builtins JNull = Inr JNull\<close>
    using normalizer_behaviour[of "JObj [(''content'', JArr [JNull])]" JNull sample_builtins "[]"]
      normalizer_behaviour[of JNull "JBool True" sample_builtins "[]"] n
    by simp
  show ?thesis
    by (rule conjI[OF first second])
qed

section \<open>Properties of the HTTP client\<close>

lemma sendRequest_begin_fst [simp]:
  "fst (sendRequest_begin m p st) = (fst st)\<lparr>requestId := requestId (fst st) + 1\<rparr>"
  by (cases st) (simp add: sendRequest_begin_def Let_def)

lemma sendRequest_begin_snd [simp]:
  "snd (sendRequest_begin m p st) =
     snd st @ [\<lparr>post_url = url (config (fst st)),
                post_headers = (headers (config (fst st)))(''Content-Type'' \<mapsto> ''application/json''),
                post_body = \<lparr>rq_id = requestId (fst st) + 1, rq_method = m, rq_params = p\<rparr>\<rparr>]"
  by (cases st) (simp add: sendRequest_begin_def Let_def)

lemma sendRequest_parts [simp]:
  "fst (sendRequest b net m p st) = sendRequest_end b (net (length (snd st)))"
  "snd (sendRequest b net m p st) = sendRequest_begin m p st"
  by (simp_all add: sendRequest_def)

lemma ids_ok_new: "ids_ok (new_HTTPMCPClient n cfg, [])"
  by (simp add: ids_ok_def new_HTTPMCPClient_def request_ids_def)

lemma ids_ok_begin: "ids_ok st \<Longrightarrow> ids_ok (sendRequest_begin m p st)"
  by (simp add: ids_ok_def request_ids_def)

lemma initialize_unfold:
  "initialize b net st =
     (if initialized (fst st) then (Returned (), st)
      else
        (case sendRequest_end b (net (length (snd st))) of
           Returned r \<Rightarrow>
             (Returned (),
              (fst (sendRequest_begin ''initialize'' (initialize_params (name (fst st))) st))
                 \<lparr>serverInfo := r, initialized := True\<rparr>,
              snd (sendRequest_begin ''initialize'' (initialize_params (name (fst st))) st))
         | Thrown e \<Rightarrow>
             (Thrown e, sendRequest_begin ''initialize'' (initialize_params (name (fst st))) st)
         | Never_settles \<Rightarrow>
             (Never_settles, sendRequest_begin ''initialize'' (initialize_params (name (fst st))) st)))"
  by (simp add: initialize_def sendRequest_def split_beta split: outcome.splits)

lemma initialize_wire:
  "snd (snd (initialize b net st)) =
     (if initialized (fst st) then snd st
      else snd (sendRequest_begin ''initialize'' (initialize_params (name (fst st))) st))"
  by (simp add: initialize_unfold split: outcome.splits)

lemma initialize_requestId:
  "requestId (fst (snd (initialize b net st))) =
     (if initialized (fst st) then requestId (fst st) else requestId (fst st) + 1)"
  by (simp add: initialize_unfold split: outcome.splits)




lemma ids_ok_initialize: "ids_ok st \<Longrightarrow> ids_ok (snd (initialize b net st))"
  using ids_ok_begin[of st "''initialize''" "initialize_params (name (fst st))"]
  by (simp add: ids_ok_def initialize_wire initialize_requestId del: upt_Suc sendRequest_begin_snd)

lemma ids_ok_sendRequest: "ids_ok st \<Longrightarrow> ids_ok (snd (sendRequest b net m p st))"
  by (simp add: ids_ok_begin del: sendRequest_begin_snd sendRequest_begin_fst)

lemma listTools_unfold:
  "listTools b net st =
     (case fst (initialize b net st) of
        Returned u \<Rightarrow> sendRequest b net ''tools/list'' JUndefined (snd (initialize b net st))
      | Thrown e \<Rightarrow> (Thrown e, snd (initialize b net st))
      | Never_settles \<Rightarrow> (Never_settles, snd (initialize b net st)))"
  by (cases "initialize b net st") (simp add: listTools_def split: outcome.splits)

lemma callTool_state:
  "snd (callTool b net t a st) =
     (case fst (initialize b net st) of
        Returned u \<Rightarrow>
          sendRequest_begin ''tools/call'' (JObj [(''name'', JStr t), (''arguments'', a)])
            (snd (initialize b net st))
      | Thrown e \<Rightarrow> snd (initialize b net st)
      | Never_settles \<Rightarrow> snd (initialize b net st))"
  by (cases "initialize b net st")
     (simp add: callTool_def sendRequest_def split: outcome.splits sum.splits)

lemma listTools_state:
  "snd (listTools b net st) =
     (case fst (initialize b net st) of
        Returned u \<Rightarrow> sendRequest_begin ''tools/list'' JUndefined (snd (initialize b net st))
      | Thrown e \<Rightarrow> snd (initialize b net st)
      | Never_settles \<Rightarrow> snd (initialize b net st))"
  by (simp add: listTools_unfold split: outcome.splits)

lemma ids_ok_run_op: "ids_ok st \<Longrightarrow> ids_ok (run_op b net x st)"
  by (cases x)
     (auto simp: callTool_state listTools_state ids_ok_initialize ids_ok_begin
           simp del: sendRequest_begin_snd sendRequest_begin_fst split: outcome.splits)

lemma ids_ok_run_ops: "ids_ok st \<Longrightarrow> ids_ok (run_ops b net xs st)"
  by (induction xs arbitrary: st) (simp_all add: ids_ok_run_op)

lemma ids_ok_begin_all: "ids_ok st \<Longrightarrow> ids_ok (begin_all rs st)"
  by (induction rs arbitrary: st) (simp_all add: ids_ok_begin del: sendRequest_begin_snd sendRequest_begin_fst)

lemma begin_all_requestId: "requestId (fst (begin_all rs st)) = requestId (fst st) + length rs"
  by (induction rs arbitrary: st) simp_all

lemma ids_ok_length: "ids_ok st \<Longrightarrow> length (snd st) = requestId (fst st)"
proof -
  assume "ids_ok st"
  then have "length (request_ids (snd st)) = length [1..<Suc (requestId (fst st))]"
    by (simp only: ids_ok_def)
  then show ?thesis by (simp add: request_ids_def)
qed


text \<open>
  C4. A client's request ids start at 1 and go up by one with every request it sends:
  after any sequence of requests begun on a new client, and after any sequence of
  \<open>initialize\<close>, \<open>listTools\<close> and \<open>callTool\<close> calls on it (whatever the network
  answers), the ids on the wire are \<open>1, 2, \<dots>, k\<close> in this order, hence strictly
  increasing and without repetition. The id is taken when the request is begun, so
  two calls in flight never share one. (The counter is a JavaScript number; it is
  modelled as a natural number, which it is below \<open>2\<^sup>5\<^sup>3\<close>.)
\<close>

theorem request_ids_monotonic:
  "request_ids (snd (begin_all rs (new_HTTPMCPClient n cfg, []))) = [1..<Suc (length rs)]
   \<and> request_ids (snd (run_ops b net ops (new_HTTPMCPClient n cfg, [])))
       = [1..<Suc (length (snd (run_ops b net ops (new_HTTPMCPClient n cfg, []))))]
   \<and> sorted_wrt (<) (request_ids (snd (run_ops b net ops (new_HTTPMCPClient n cfg, []))))
   \<and> distinct (request_ids (snd (run_ops b net ops (new_HTTPMCPClient n cfg, []))))"
proof -
  let ?st = "(new_HTTPMCPClient n cfg, [])"
  have a: "ids_ok (begin_all rs ?st)" by (rule ids_ok_begin_all[OF ids_ok_new])
  have a': "requestId (fst (begin_all rs ?st)) = length rs"
    by (simp add: begin_all_requestId new_HTTPMCPClient_def)
  have b: "ids_ok (run_ops b net ops ?st)" by (rule ids_ok_run_ops[OF ids_ok_new])
  have b': "request_ids (snd (run_ops b net ops ?st))
       = [1..<Suc (length (snd (run_ops b net ops ?st)))]"
    using b ids_ok_length[OF b] by (simp only: ids_ok_def)
  have c: "sorted_wrt (<) [1..<Suc k] \<and> distinct [1..<Suc k]" for k :: nat
    by (simp del: upt_Suc add: sorted_wrt_upt)
  show ?thesis
    using a a' b' c[of "length (snd (run_ops b net ops ?st))"]
    by (simp only: ids_ok_def)
qed

theorem request_ids_monotonic_witness:
  "request_ids (snd (begin_all [(''initialize'', JNull), (''tools/call'', JNull), (''tools/list'', JUndefined)]
      (new_HTTPMCPClient ''stripe'' \<lparr>url = Some ''https://mcp.stripe.com'', headers = Map.empty\<rparr>, [])))
     = [1, 2, 3]
   \<and> distinct (request_ids (snd (run_ops sample_builtins prompt_network
        [Op_callTool ''list_customers'' (JObj []), Op_listTools]
        (new_HTTPMCPClient ''stripe'' \<lparr>url = Some ''https://mcp.stripe.com'', headers = Map.empty\<rparr>, []))))"
  using request_ids_monotonic[of
      "[(''initialize'', JNull), (''tools/call'', JNull), (''tools/list'', JUndefined)]"
      "''stripe''" "\<lparr>url = Some ''https://mcp.stripe.com'', headers = Map.empty\<rparr>"
      sample_builtins prompt_network "[Op_callTool ''list_customers'' (JObj []), Op_listTools]"]
  by (simp add: upt_conv_Cons)



lemma initialize_begin_wire: "snd (snd (initialize b net st)) = snd (initialize_begin st)"
  by (simp add: initialize_wire initialize_begin_def)

lemma initialize_begin_requestId:
  "requestId (fst (snd (initialize b net st))) = requestId (fst (initialize_begin st))"
  by (simp add: initialize_requestId initialize_begin_def)

text \<open>
  \<open>k\<close> callers that enter \<open>initialize\<close> on one client before any reply has arrived
  send \<open>k\<close> \<open>initialize\<close> requests.
\<close>

lemma initialize_begin_each_sends:
  "\<not> initialized (fst st) \<Longrightarrow>
     \<not> initialized (fst ((initialize_begin ^^ k) st))
     \<and> request_methods (snd ((initialize_begin ^^ k) st))
         = request_methods (snd st) @ replicate k ''initialize''"
proof (induction k)
  case 0
  then show ?case by simp
next
  case (Suc k)
  then show ?case
    by (simp add: initialize_begin_def request_methods_def replicate_append_same)
qed






section \<open>Properties of the registry lookup\<close>


lemma stdioServers_lookup_plain:
  "s \<notin> set Object_prototype_names \<Longrightarrow> stdioServers_lookup reg s = map_of reg s"
  by (simp add: stdioServers_lookup_def split: option.splits)

lemma stdioServers_lookup_inherited:
  "map_of reg s = None \<Longrightarrow> s \<in> set Object_prototype_names \<Longrightarrow>
     stdioServers_lookup reg s = Some \<lparr>command = None, args = None, env = Map.empty\<rparr>"
  by (simp add: stdioServers_lookup_def)

lemma httpServers_lookup_own:
  "map_of hreg s = Some cfg \<Longrightarrow> httpServers_lookup hreg s = Some cfg"
  by (simp add: httpServers_lookup_def)

lemma httpServers_lookup_plain:
  "s \<notin> set Object_prototype_names \<Longrightarrow> httpServers_lookup hreg s = map_of hreg s"
  by (simp add: httpServers_lookup_def split: option.splits)

lemma httpServers_lookup_inherited:
  "map_of hreg s = None \<Longrightarrow> s \<in> set Object_prototype_names \<Longrightarrow>
     httpServers_lookup hreg s = Some \<lparr>url = None, headers = Map.empty\<rparr>"
  by (simp add: httpServers_lookup_def)

section \<open>Properties of the stdio client manager\<close>


lemma getClient_in_progress:
  "clients m s = None \<Longrightarrow> initializing m s = Some p \<Longrightarrow>
     StdioClientManager_getClient reg s m = (In_progress p, m)"
  by (simp add: StdioClientManager_getClient_def)

lemma getClient_started:
  "clients m s = None \<Longrightarrow> initializing m s = None \<Longrightarrow>
     StdioClientManager_getClient reg s m =
       (Started (length (promises m)),
        (createClient_begin reg s m)
          \<lparr>initializing := (initializing (createClient_begin reg s m))(s \<mapsto> length (promises m))\<rparr>)"
  by (simp add: StdioClientManager_getClient_def Let_def)

lemma createClient_begin_fields [simp]:
  "clients (createClient_begin reg s m) = clients m"
  "transports (createClient_begin reg s m) = transports m"
  "initializing (createClient_begin reg s m) = initializing m"
  "promises (createClient_begin reg s m) =
     promises m @ [\<lparr>p_server = s,
        p_state = (case stdioServers_lookup reg s of
                     None \<Rightarrow> Rejected (unknown_stdio_server reg s)
                   | Some cfg \<Rightarrow> Pending (next_ref m + 1) (next_ref m))\<rparr>]"
  "trace (createClient_begin reg s m) =
     trace m @ (case stdioServers_lookup reg s of
                  None \<Rightarrow> []
                | Some cfg \<Rightarrow> [Connect s (command cfg) (args cfg) (next_ref m + 1) (next_ref m)])"
  by (simp_all add: createClient_begin_def unknown_stdio_server_def Let_def split: option.splits)

lemma getClient_times_in_progress:
  "clients m s = None \<Longrightarrow> initializing m s = Some p \<Longrightarrow>
     getClient_times reg s n m = (replicate n (In_progress p), m)"
  by (induction n) (simp_all add: getClient_in_progress)

lemma getClient_times_fresh:
  assumes "clients m s = None" "initializing m s = None"
  shows "getClient_times reg s (Suc n) m =
     (Started (length (promises m)) # replicate n (In_progress (length (promises m))),
      (createClient_begin reg s m)
          \<lparr>initializing := (initializing m)(s \<mapsto> length (promises m))\<rparr>)"
proof -
  let ?m1 = "(createClient_begin reg s m)
          \<lparr>initializing := (initializing m)(s \<mapsto> length (promises m))\<rparr>"
  have "clients ?m1 s = None" "initializing ?m1 s = Some (length (promises m))"
    using assms by simp_all
  then have "getClient_times reg s n ?m1 = (replicate n (In_progress (length (promises m))), ?m1)"
    by (rule getClient_times_in_progress)
  then show ?thesis using assms by (simp add: getClient_started)
qed

lemma awaited_In_progress_Started: "awaited m (In_progress p) = awaited m (Started p)"
  by (simp add: awaited_def)

lemma map_awaited:
  "map (awaited m) (Started p # replicate n (In_progress p)) = replicate (Suc n) (awaited m (Started p))"
  by (simp add: awaited_In_progress_Started)


lemma createClient_end_fresh:
  assumes "promises m1 = ps @ [\<lparr>p_server = s, p_state = st\<rparr>]"
  shows "createClient_end (length ps) connected m1 =
     (case st of
        Pending c t \<Rightarrow>
          (case connected of
             None \<Rightarrow> m1\<lparr>clients := (clients m1)(s \<mapsto> c), transports := (transports m1)(s \<mapsto> t),
                         promises := ps @ [\<lparr>p_server = s, p_state = Fulfilled c\<rparr>]\<rparr>
           | Some e \<Rightarrow> m1\<lparr>promises := ps @ [\<lparr>p_server = s, p_state = Rejected e\<rparr>]\<rparr>)
      | _ \<Rightarrow> m1)"
  using assms by (simp add: createClient_end_def split: promise_state.splits option.splits)

lemma awaited_last:
  "promises m = ps @ [\<lparr>p_server = s, p_state = st\<rparr>] \<Longrightarrow>
     awaited m (Started (length ps)) =
       (case st of Fulfilled c \<Rightarrow> Returned c | Rejected e \<Rightarrow> Thrown e | Pending c t \<Rightarrow> Never_settles)"
  by (simp add: awaited_def)

lemma getClient_resume_fields [simp]:
  "clients (getClient_resume s m) = clients m"
  "transports (getClient_resume s m) = transports m"
  "promises (getClient_resume s m) = promises m"
  "trace (getClient_resume s m) = trace m"
  "next_ref (getClient_resume s m) = next_ref m"
  "initializing (getClient_resume s m) = (initializing m)(s := None)"
  by (simp_all add: getClient_resume_def)

lemma awaited_resume [simp]: "awaited (getClient_resume s m) r = awaited m r"
  by (cases r) (simp_all add: awaited_def)


text \<open>
  C1, as the claim states it, fails on the remote transport. \<open>HTTPClientManager.getClient\<close>
  gives every caller the same client, but \<open>HTTPMCPClient.initialize\<close> sets its flag only
  when the reply to its request has arrived, and nothing records a handshake in
  progress: two callers of \<open>initializeHTTPServer\<close> for the same server, the second
  entering before the reply to the first, each send an \<open>initialize\<close> request.
\<close>

theorem concurrent_handshake_counterexample:
  "request_methods (snd (initializeHTTPServer_begin sample_httpServers ''stripe''
       (initializeHTTPServer_begin sample_httpServers ''stripe'' (new_HTTPClientManager, []))))
     = [''initialize'', ''initialize'']"
  by (simp add: initializeHTTPServer_begin_def HTTPClientManager_getClient_def
        httpServers_lookup_def initialize_begin_def sendRequest_begin_def store_client_def
        new_HTTPClientManager_def new_HTTPMCPClient_def sample_httpServers_def
        request_methods_def Let_def)

lemma getClient_again:
  "HTTPClientManager_getClient hreg s hm = Inr (c, hm') \<Longrightarrow>
     http_clients hm' s = Some c \<and> HTTPClientManager_getClient hreg s hm' = Inr (c, hm')"
  by (auto simp: HTTPClientManager_getClient_def Let_def split: option.splits)

text \<open>
  C1, amended: the claim holds of \<open>StdioClientManager.getClient\<close>. Take a manager in
  which the server has no cached client and no creation in progress, and let \<open>n + 1\<close>
  callers enter \<open>getClient\<close> for it before the connect settles. The first caller
  starts the creation and every other caller gets that same promise: \<open>createClient\<close>
  ran once. When the registry lookup yields a value for the name, exactly one connect
  was started; when the connect succeeds, all callers get the same client, which is the
  one cached; when it fails, all callers get the same error and nothing is cached.
  When the lookup yields nothing, the single creation fails without any connect, all
  callers get its error and nothing is cached. \<open>HTTPClientManager.getClient\<close>, which
  is synchronous, creates one client per name and returns that client to every later
  caller.
\<close>

theorem concurrent_getClient_single_creation:
  "(clients m s = None \<and> initializing m s = None \<longrightarrow>
     (let p = length (promises m);
          rs = fst (getClient_times reg s (Suc n) m);
          m1 = snd (getClient_times reg s (Suc n) m);
          m2 = getClient_resume s (createClient_end p connected m1)
      in rs = Started p # replicate n (In_progress p)
       \<and> length (promises m1) = Suc p
       \<and> trace m2 = trace m1
       \<and> (case stdioServers_lookup reg s of
             None \<Rightarrow>
               trace m1 = trace m
               \<and> map (awaited m2) rs = replicate (Suc n) (Thrown (unknown_stdio_server reg s))
               \<and> clients m2 s = None
           | Some cfg \<Rightarrow>
               trace m1 = trace m @ [Connect s (command cfg) (args cfg) (next_ref m + 1) (next_ref m)]
               \<and> (case connected of
                     None \<Rightarrow>
                       map (awaited m2) rs = replicate (Suc n) (Returned (next_ref m + 1))
                       \<and> clients m2 s = Some (next_ref m + 1)
                   | Some e \<Rightarrow>
                       map (awaited m2) rs = replicate (Suc n) (Thrown e)
                       \<and> clients m2 s = None))))
   \<and> (HTTPClientManager_getClient hreg s hm = Inr (c, hm') \<longrightarrow>
        http_clients hm' s = Some c \<and> HTTPClientManager_getClient hreg s hm' = Inr (c, hm'))"
proof (intro conjI impI)
  assume "HTTPClientManager_getClient hreg s hm = Inr (c, hm')"
  then show "http_clients hm' s = Some c" "HTTPClientManager_getClient hreg s hm' = Inr (c, hm')"
    using getClient_again by blast+
next
  assume h: "clients m s = None \<and> initializing m s = None"
  let ?p = "length (promises m)"
  let ?m1 = "(createClient_begin reg s m)\<lparr>initializing := (initializing m)(s \<mapsto> ?p)\<rparr>"
  let ?st = "case stdioServers_lookup reg s of
               None \<Rightarrow> Rejected (unknown_stdio_server reg s)
             | Some cfg \<Rightarrow> Pending (next_ref m + 1) (next_ref m)"
  have run: "getClient_times reg s (Suc n) m = (Started ?p # replicate n (In_progress ?p), ?m1)"
    by (rule getClient_times_fresh) (simp_all add: h)
  have ps: "promises ?m1 = promises m @ [\<lparr>p_server = s, p_state = ?st\<rparr>]"
    by simp
  note e = createClient_end_fresh[OF ps, of connected]
  have rs: "fst (getClient_times reg s (Suc n) m) = Started ?p # replicate n (In_progress ?p)"
    and m1: "snd (getClient_times reg s (Suc n) m) = ?m1"
    by (simp_all only: run fst_conv snd_conv)
  show "let p = length (promises m);
          rs = fst (getClient_times reg s (Suc n) m);
          m1 = snd (getClient_times reg s (Suc n) m);
          m2 = getClient_resume s (createClient_end p connected m1)
      in rs = Started p # replicate n (In_progress p)
       \<and> length (promises m1) = Suc p
       \<and> trace m2 = trace m1
       \<and> (case stdioServers_lookup reg s of
             None \<Rightarrow>
               trace m1 = trace m
               \<and> map (awaited m2) rs = replicate (Suc n) (Thrown (unknown_stdio_server reg s))
               \<and> clients m2 s = None
           | Some cfg \<Rightarrow>
               trace m1 = trace m @ [Connect s (command cfg) (args cfg) (next_ref m + 1) (next_ref m)]
               \<and> (case connected of
                     None \<Rightarrow>
                       map (awaited m2) rs = replicate (Suc n) (Returned (next_ref m + 1))
                       \<and> clients m2 s = Some (next_ref m + 1)
                   | Some e \<Rightarrow>
                       map (awaited m2) rs = replicate (Suc n) (Thrown e)
                       \<and> clients m2 s = None))"
    unfolding Let_def rs m1
  proof (cases "stdioServers_lookup reg s")
    case None
    have ps2: "promises (createClient_end ?p connected ?m1) =
                 promises m @ [\<lparr>p_server = s, p_state = Rejected (unknown_stdio_server reg s)\<rparr>]"
      using e None by simp
    show "Started ?p # replicate n (In_progress ?p) = Started ?p # replicate n (In_progress ?p)
       \<and> length (promises ?m1) = Suc ?p
       \<and> trace (getClient_resume s (createClient_end ?p connected ?m1)) = trace ?m1
       \<and> (case stdioServers_lookup reg s of
             None \<Rightarrow>
               trace ?m1 = trace m
               \<and> map (awaited (getClient_resume s (createClient_end ?p connected ?m1)))
                     (Started ?p # replicate n (In_progress ?p))
                   = replicate (Suc n) (Thrown (unknown_stdio_server reg s))
               \<and> clients (getClient_resume s (createClient_end ?p connected ?m1)) s = None
           | Some cfg \<Rightarrow>
               trace ?m1 = trace m @ [Connect s (command cfg) (args cfg) (next_ref m + 1) (next_ref m)]
               \<and> (case connected of
                     None \<Rightarrow>
                       map (awaited (getClient_resume s (createClient_end ?p connected ?m1)))
                           (Started ?p # replicate n (In_progress ?p))
                         = replicate (Suc n) (Returned (next_ref m + 1))
                       \<and> clients (getClient_resume s (createClient_end ?p connected ?m1)) s
                           = Some (next_ref m + 1)
                   | Some e \<Rightarrow>
                       map (awaited (getClient_resume s (createClient_end ?p connected ?m1)))
                           (Started ?p # replicate n (In_progress ?p))
                         = replicate (Suc n) (Thrown e)
                       \<and> clients (getClient_resume s (createClient_end ?p connected ?m1)) s = None))"
      using h e None awaited_last[OF ps2]
      by (simp add: awaited_In_progress_Started)
  next
    case (Some cfg)
    show "Started ?p # replicate n (In_progress ?p) = Started ?p # replicate n (In_progress ?p)
       \<and> length (promises ?m1) = Suc ?p
       \<and> trace (getClient_resume s (createClient_end ?p connected ?m1)) = trace ?m1
       \<and> (case stdioServers_lookup reg s of
             None \<Rightarrow>
               trace ?m1 = trace m
               \<and> map (awaited (getClient_resume s (createClient_end ?p connected ?m1)))
                     (Started ?p # replicate n (In_progress ?p))
                   = replicate (Suc n) (Thrown (unknown_stdio_server reg s))
               \<and> clients (getClient_resume s (createClient_end ?p connected ?m1)) s = None
           | Some cfg \<Rightarrow>
               trace ?m1 = trace m @ [Connect s (command cfg) (args cfg) (next_ref m + 1) (next_ref m)]
               \<and> (case connected of
                     None \<Rightarrow>
                       map (awaited (getClient_resume s (createClient_end ?p connected ?m1)))
                           (Started ?p # replicate n (In_progress ?p))
                         = replicate (Suc n) (Returned (next_ref m + 1))
                       \<and> clients (getClient_resume s (createClient_end ?p connected ?m1)) s
                           = Some (next_ref m + 1)
                   | Some e \<Rightarrow>
                       map (awaited (getClient_resume s (createClient_end ?p connected ?m1)))
                           (Started ?p # replicate n (In_progress ?p))
                         = replicate (Suc n) (Thrown e)
                       \<and> clients (getClient_resume s (createClient_end ?p connected ?m1)) s = None))"
    proof (cases connected)
      case None
      have ps2: "promises (createClient_end ?p connected ?m1) =
                   promises m @ [\<lparr>p_server = s, p_state = Fulfilled (next_ref m + 1)\<rparr>]"
        using e Some None by simp
      show ?thesis
        using h e Some None
        by (simp add: awaited_In_progress_Started awaited_def)
    next
      case (Some er)
      have ps2: "promises (createClient_end ?p connected ?m1) =
                   promises m @ [\<lparr>p_server = s, p_state = Rejected er\<rparr>]"
        using e \<open>stdioServers_lookup reg s = Some cfg\<close> Some by simp
      show ?thesis
        using h e \<open>stdioServers_lookup reg s = Some cfg\<close> Some
        by (simp add: awaited_In_progress_Started awaited_def)
    qed
  qed
qed

text \<open>
  The amended claim at three callers of \<open>getClient\<close> for \<open>git\<close> on a new manager, with
  a connect that succeeds and with one that fails; and at two callers of the HTTP
  manager's \<open>getClient\<close> for \<open>stripe\<close>.
\<close>

theorem concurrent_getClient_single_creation_witness:
  "(clients new_StdioClientManager ''git'' = None
   \<and> initializing new_StdioClientManager ''git'' = None
   \<and> fst (getClient_times sample_stdioServers ''git'' (Suc 2) new_StdioClientManager)
       = Started 0 # replicate 2 (In_progress 0)
   \<and> trace (snd (getClient_times sample_stdioServers ''git'' (Suc 2) new_StdioClientManager))
       = [Connect ''git'' (Some ''uvx'') (Some [''mcp-server-git'']) 1 0]
   \<and> map (awaited (getClient_resume ''git'' (createClient_end 0 None
              (snd (getClient_times sample_stdioServers ''git'' (Suc 2) new_StdioClientManager)))))
          (fst (getClient_times sample_stdioServers ''git'' (Suc 2) new_StdioClientManager))
       = replicate (Suc 2) (Returned 1))
   \<and> (map (awaited (getClient_resume ''git'' (createClient_end 0 (Some (Error ''spawn uvx ENOENT''))
              (snd (getClient_times sample_stdioServers ''git'' (Suc 2) new_StdioClientManager)))))
          (fst (getClient_times sample_stdioServers ''git'' (Suc 2) new_StdioClientManager))
       = replicate (Suc 2) (Thrown (Error ''spawn uvx ENOENT''))
   \<and> clients (getClient_resume ''git'' (createClient_end 0 (Some (Error ''spawn uvx ENOENT''))
              (snd (getClient_times sample_stdioServers ''git'' (Suc 2) new_StdioClientManager)))) ''git''
       = None)
   \<and> (HTTPClientManager_getClient sample_httpServers ''stripe'' new_HTTPClientManager
       = Inr (new_HTTPMCPClient ''stripe'' (snd (sample_httpServers ! 1)),
              store_client ''stripe'' (new_HTTPMCPClient ''stripe'' (snd (sample_httpServers ! 1)))
                new_HTTPClientManager)
   \<and> HTTPClientManager_getClient sample_httpServers ''stripe''
        (store_client ''stripe'' (new_HTTPMCPClient ''stripe'' (snd (sample_httpServers ! 1)))
           new_HTTPClientManager)
       = Inr (new_HTTPMCPClient ''stripe'' (snd (sample_httpServers ! 1)),
              store_client ''stripe'' (new_HTTPMCPClient ''stripe'' (snd (sample_httpServers ! 1)))
                new_HTTPClientManager))"
proof -
  have h: "clients new_StdioClientManager ''git'' = None
           \<and> initializing new_StdioClientManager ''git'' = None"
    by (simp add: new_StdioClientManager_def)
  have k: "stdioServers_lookup sample_stdioServers ''git''
             = Some \<lparr>command = Some ''uvx'', args = Some [''mcp-server-git''], env = Map.empty\<rparr>"
    by (simp add: stdioServers_lookup_def sample_stdioServers_def)
  have z: "promises new_StdioClientManager = []" "trace new_StdioClientManager = []"
    "next_ref new_StdioClientManager = 0"
    by (simp_all add: new_StdioClientManager_def)
  have g: "HTTPClientManager_getClient sample_httpServers ''stripe'' new_HTTPClientManager
       = Inr (new_HTTPMCPClient ''stripe'' (snd (sample_httpServers ! 1)),
              store_client ''stripe'' (new_HTTPMCPClient ''stripe'' (snd (sample_httpServers ! 1)))
                new_HTTPClientManager)"
    by (simp add: HTTPClientManager_getClient_def httpServers_lookup_def store_client_def
          new_HTTPClientManager_def sample_httpServers_def Let_def)
  note T = concurrent_getClient_single_creation[where m = new_StdioClientManager
        and s = "''git''" and n = 2 and reg = sample_stdioServers and connected = None,
        THEN conjunct1, THEN mp, OF h,
        unfolded Let_def k z option.case list.size append_Nil add_0 StdioServerConfig.simps]
  note U = concurrent_getClient_single_creation[where m = new_StdioClientManager
        and s = "''git''" and n = 2 and reg = sample_stdioServers
        and connected = "Some (Error ''spawn uvx ENOENT'')", THEN conjunct1, THEN mp, OF h,
        unfolded Let_def k z option.case list.size append_Nil add_0 StdioServerConfig.simps]
  note V = concurrent_getClient_single_creation[where hreg = sample_httpServers
        and s = "''stripe''" and hm = new_HTTPClientManager, THEN conjunct2, THEN mp, OF g]
  have first: "clients new_StdioClientManager ''git'' = None
   \<and> initializing new_StdioClientManager ''git'' = None
   \<and> fst (getClient_times sample_stdioServers ''git'' (Suc 2) new_StdioClientManager)
       = Started 0 # replicate 2 (In_progress 0)
   \<and> trace (snd (getClient_times sample_stdioServers ''git'' (Suc 2) new_StdioClientManager))
       = [Connect ''git'' (Some ''uvx'') (Some [''mcp-server-git'']) 1 0]
   \<and> map (awaited (getClient_resume ''git'' (createClient_end 0 None
              (snd (getClient_times sample_stdioServers ''git'' (Suc 2) new_StdioClientManager)))))
          (fst (getClient_times sample_stdioServers ''git'' (Suc 2) new_StdioClientManager))
       = replicate (Suc 2) (Returned 1)"
    using T h by (elim conjE) (intro conjI, assumption+)
  have second: "map (awaited (getClient_resume ''git'' (createClient_end 0 (Some (Error ''spawn uvx ENOENT''))
              (snd (getClient_times sample_stdioServers ''git'' (Suc 2) new_StdioClientManager)))))
          (fst (getClient_times sample_stdioServers ''git'' (Suc 2) new_StdioClientManager))
       = replicate (Suc 2) (Thrown (Error ''spawn uvx ENOENT''))
   \<and> clients (getClient_resume ''git'' (createClient_end 0 (Some (Error ''spawn uvx ENOENT''))
              (snd (getClient_times sample_stdioServers ''git'' (Suc 2) new_StdioClientManager)))) ''git''
       = None"
    using U by (elim conjE) (intro conjI, assumption+)
  have third: "HTTPClientManager_getClient sample_httpServers ''stripe'' new_HTTPClientManager
       = Inr (new_HTTPMCPClient ''stripe'' (snd (sample_httpServers ! 1)),
              store_client ''stripe'' (new_HTTPMCPClient ''stripe'' (snd (sample_httpServers ! 1)))
                new_HTTPClientManager)
   \<and> HTTPClientManager_getClient sample_httpServers ''stripe''
        (store_client ''stripe'' (new_HTTPMCPClient ''stripe'' (snd (sample_httpServers ! 1)))
           new_HTTPClientManager)
       = Inr (new_HTTPMCPClient ''stripe'' (snd (sample_httpServers ! 1)),
              store_client ''stripe'' (new_HTTPMCPClient ''stripe'' (snd (sample_httpServers ! 1)))
                new_HTTPClientManager)"
    using g V by simp
  show ?thesis
    by (rule conjI[OF first conjI[OF second third]])
qed

lemma createClient_end_fields_same [simp]:
  "trace (createClient_end p connected m) = trace m"
  "initializing (createClient_end p connected m) = initializing m"
  "next_ref (createClient_end p connected m) = next_ref m"
  "length (promises (createClient_end p connected m)) = length (promises m)"
  by (simp_all add: createClient_end_def split: promise_state.splits option.splits)

lemma createClient_end_not_pending:
  "p < length (promises m) \<Longrightarrow> (\<forall>c t. p_state (promises m ! p) \<noteq> Pending c t) \<Longrightarrow>
     createClient_end p connected m = m"
  by (simp add: createClient_end_def split: promise_state.splits)

lemma stdio_cache_ok_unknown:
  assumes "stdio_cache_ok reg m" "map_of reg s = None"
  shows "clients m s = None"
    and "initializing m s = Some p \<Longrightarrow>
           p < length (promises m) \<and>
           promises m ! p = \<lparr>p_server = s, p_state = Rejected (unknown_stdio_server reg s)\<rparr>"
  using assms by (simp_all add: stdio_cache_ok_def)

lemma getClient_await_unknown:
  assumes ok: "stdio_cache_ok reg m" and un0: "map_of reg s = None"
    and np: "s \<notin> set Object_prototype_names"
  shows "fst (getClient_await reg s connected m) = Thrown (unknown_stdio_server reg s)"
    and "trace (snd (getClient_await reg s connected m)) = trace m"
    and "clients (snd (getClient_await reg s connected m)) = clients m"
    and "transports (snd (getClient_await reg s connected m)) = transports m"
proof -
  have un: "stdioServers_lookup reg s = None"
    using un0 np by (simp add: stdioServers_lookup_plain)
  have c: "clients m s = None" by (rule stdio_cache_ok_unknown(1)[OF ok un0])
  have "fst (getClient_await reg s connected m) = Thrown (unknown_stdio_server reg s)
      \<and> trace (snd (getClient_await reg s connected m)) = trace m
      \<and> clients (snd (getClient_await reg s connected m)) = clients m
      \<and> transports (snd (getClient_await reg s connected m)) = transports m"
  proof (cases "initializing m s")
    case None
    let ?m1 = "(createClient_begin reg s m)
          \<lparr>initializing := (initializing m)(s \<mapsto> length (promises m))\<rparr>"
    have g: "StdioClientManager_getClient reg s m = (Started (length (promises m)), ?m1)"
      using c None by (simp add: getClient_started)
    have ps: "promises ?m1 = promises m @
        [\<lparr>p_server = s, p_state = Rejected (unknown_stdio_server reg s)\<rparr>]"
      using un by simp
    have e: "createClient_end (length (promises m)) connected ?m1 = ?m1"
      using createClient_end_fresh[OF ps, of connected] by simp
    show ?thesis
      using un ps by (simp add: getClient_await_def g e Let_def awaited_def del: createClient_begin_fields(4))
  next
    case (Some p)
    have g: "StdioClientManager_getClient reg s m = (In_progress p, m)"
      using c Some by (rule getClient_in_progress)
    have pr: "p < length (promises m)"
      "promises m ! p = \<lparr>p_server = s, p_state = Rejected (unknown_stdio_server reg s)\<rparr>"
      using stdio_cache_ok_unknown(2)[OF ok un0 Some] by simp_all
    have e: "createClient_end p connected m = m"
      using pr by (simp add: createClient_end_not_pending)
    show ?thesis
      using pr by (simp add: getClient_await_def g e Let_def awaited_def)
  qed
  then show "fst (getClient_await reg s connected m) = Thrown (unknown_stdio_server reg s)"
    and "trace (snd (getClient_await reg s connected m)) = trace m"
    and "clients (snd (getClient_await reg s connected m)) = clients m"
    and "transports (snd (getClient_await reg s connected m)) = transports m"
    by simp_all
qed

lemma callMCPTool_thrown:
  "fst (getClient_await reg s connected m) = Thrown e \<Longrightarrow>
     callMCPTool b reg s t a connected called m = (Thrown e, snd (getClient_await reg s connected m))"
  by (cases "getClient_await reg s connected m") (simp add: callMCPTool_def)

lemma initializeServer_thrown:
  "fst (getClient_await reg s connected m) = Thrown e \<Longrightarrow>
     initializeServer reg s connected m = (Thrown e, snd (getClient_await reg s connected m))"
  by (cases "getClient_await reg s connected m") (simp add: initializeServer_def)


lemma map_of_None_iff: "map_of reg s = None \<longleftrightarrow> s \<notin> fst ` set reg"
  by (simp add: map_of_eq_None_iff)

lemma http_unknown_getClient:
  assumes "http_cache_ok hreg m" "map_of hreg s = None" "s \<notin> set Object_prototype_names"
  shows "HTTPClientManager_getClient hreg s m = Inl (unknown_HTTP_server hreg s)"
proof -
  have "s \<notin> dom (http_clients m)"
    using assms(1,2) by (auto simp: http_cache_ok_def map_of_None_iff)
  then have "http_clients m s = None" by blast
  then show ?thesis
    using assms(2,3) by (simp add: HTTPClientManager_getClient_def httpServers_lookup_plain)
qed

text \<open>
  For a name that is neither in the registry nor defined by \<open>Object.prototype\<close>, in any
  state that satisfies the invariant: \<open>initializeServer\<close> and \<open>callMCPTool\<close> fail with
  the error "Unknown stdio server: \<open>name\<close>. Available: \<dots>" and leave the trace of
  connects and calls as it was (no process is spawned); \<open>initializeHTTPServer\<close> and
  \<open>callHTTPMCPTool\<close> fail with "Unknown HTTP server: \<open>name\<close>. Available: \<dots>" and
  leave manager and wire as they were (no request is made).
\<close>

lemma unknown_server_rejected:
  "(stdio_cache_ok reg m \<and> map_of reg s = None \<and> s \<notin> set Object_prototype_names \<longrightarrow>
      fst (initializeServer reg s connected m)
        = Thrown (Error (''Unknown stdio server: '' @ s @ ''. Available: '' @ join '', '' (map fst reg)))
      \<and> trace (snd (initializeServer reg s connected m)) = trace m
      \<and> clients (snd (initializeServer reg s connected m)) = clients m
      \<and> fst (callMCPTool b reg s t a connected called m)
        = Thrown (Error (''Unknown stdio server: '' @ s @ ''. Available: '' @ join '', '' (map fst reg)))
      \<and> trace (snd (callMCPTool b reg s t a connected called m)) = trace m
      \<and> clients (snd (callMCPTool b reg s t a connected called m)) = clients m)
   \<and> (http_cache_ok hreg (fst hst) \<and> map_of hreg s = None \<and> s \<notin> set Object_prototype_names \<longrightarrow>
      initializeHTTPServer b net hreg s hst
        = (Thrown (Error (''Unknown HTTP server: '' @ s @ ''. Available: '' @ join '', '' (map fst hreg))), hst)
      \<and> callHTTPMCPTool b net hreg s t' a' hst
        = (Thrown (Error (''Unknown HTTP server: '' @ s @ ''. Available: '' @ join '', '' (map fst hreg))), hst))"
proof (intro conjI impI)
  assume h: "stdio_cache_ok reg m \<and> map_of reg s = None \<and> s \<notin> set Object_prototype_names"
  then have h1: "stdio_cache_ok reg m" and h2: "map_of reg s = None"
    and h3: "s \<notin> set Object_prototype_names" by simp_all
  note g = getClient_await_unknown[OF h1 h2 h3, of connected]
  show "fst (initializeServer reg s connected m)
        = Thrown (Error (''Unknown stdio server: '' @ s @ ''. Available: '' @ join '', '' (map fst reg)))"
    using initializeServer_thrown[OF g(1)] by (simp add: unknown_stdio_server_def)
  show "trace (snd (initializeServer reg s connected m)) = trace m"
    using initializeServer_thrown[OF g(1)] g(2) by simp
  show "clients (snd (initializeServer reg s connected m)) = clients m"
    using initializeServer_thrown[OF g(1)] g(3) by simp
  show "fst (callMCPTool b reg s t a connected called m)
        = Thrown (Error (''Unknown stdio server: '' @ s @ ''. Available: '' @ join '', '' (map fst reg)))"
    using callMCPTool_thrown[OF g(1)] by (simp add: unknown_stdio_server_def)
  show "trace (snd (callMCPTool b reg s t a connected called m)) = trace m"
    using callMCPTool_thrown[OF g(1)] g(2) by simp
  show "clients (snd (callMCPTool b reg s t a connected called m)) = clients m"
    using callMCPTool_thrown[OF g(1)] g(3) by simp
next
  assume h: "http_cache_ok hreg (fst hst) \<and> map_of hreg s = None \<and> s \<notin> set Object_prototype_names"
  then have h1: "http_cache_ok hreg (fst hst)" and h2: "map_of hreg s = None"
    and h3: "s \<notin> set Object_prototype_names" by simp_all
  note g = http_unknown_getClient[OF h1 h2 h3]
  show "initializeHTTPServer b net hreg s hst
        = (Thrown (Error (''Unknown HTTP server: '' @ s @ ''. Available: '' @ join '', '' (map fst hreg))), hst)"
    by (simp add: initializeHTTPServer_def g unknown_HTTP_server_def)
  show "callHTTPMCPTool b net hreg s t' a' hst
        = (Thrown (Error (''Unknown HTTP server: '' @ s @ ''. Available: '' @ join '', '' (map fst hreg))), hst)"
    by (simp add: callHTTPMCPTool_def g unknown_HTTP_server_def)
qed

lemma unknown_server_rejected_example:
  "fst (callMCPTool sample_builtins sample_stdioServers ''nope'' ''git_status'' (JObj []) None
            (Inr (JObj [])) new_StdioClientManager)
       = Thrown (Error ''Unknown stdio server: nope. Available: memory, git'')
   \<and> trace (snd (callMCPTool sample_builtins sample_stdioServers ''nope'' ''git_status'' (JObj []) None
            (Inr (JObj [])) new_StdioClientManager)) = []
   \<and> callHTTPMCPTool sample_builtins prompt_network sample_httpServers ''nope'' ''deploy'' (JObj [])
        (new_HTTPClientManager, [])
       = (Thrown (Error ''Unknown HTTP server: nope. Available: vercel, stripe''),
          (new_HTTPClientManager, []))"
  by (simp add: callMCPTool_def getClient_await_def StdioClientManager_getClient_def
        createClient_begin_def createClient_end_def getClient_resume_def awaited_def
        stdioServers_lookup_def httpServers_lookup_def Object_prototype_names_def
        unknown_stdio_server_def unknown_HTTP_server_def callHTTPMCPTool_def
        HTTPClientManager_getClient_def new_StdioClientManager_def new_HTTPClientManager_def
        sample_stdioServers_def sample_httpServers_def Let_def)

text \<open>
  C3. The guard \<open>if (!config)\<close> of \<open>createClient\<close> and of \<open>HTTPClientManager.getClient\<close>
  tests the value of \<open>stdioServers[serverName]\<close> and \<open>httpServers[serverName]\<close>. For a
  name that is not in the registry but is defined by \<open>Object.prototype\<close> that value is
  the inherited member, which is truthy, so the guard does not throw. At the name
  \<open>constructor\<close>, on new managers: \<open>initializeServer\<close> and \<open>callMCPTool\<close> build a
  transport with command \<open>undefined\<close> and start a connect, and the caller gets what the
  connect throws, not a configuration error; \<open>callHTTPMCPTool\<close> creates and caches a
  client for \<open>constructor\<close>, which calls \<open>fetch\<close> with url \<open>undefined\<close>, and the caller
  gets what \<open>fetch\<close> throws.
\<close>

theorem unknown_server_guard_passes_inherited_name:
  \<open>map_of sample_stdioServers ''constructor'' = None
   \<and> trace (snd (initializeServer sample_stdioServers ''constructor''
        (Some (TypeError ''The "file" argument must be of type string. Received undefined''))
        new_StdioClientManager))
       = [Connect ''constructor'' None None 1 0]
   \<and> fst (initializeServer sample_stdioServers ''constructor''
        (Some (TypeError ''The "file" argument must be of type string. Received undefined''))
        new_StdioClientManager)
       = Thrown (TypeError ''The "file" argument must be of type string. Received undefined'')
   \<and> trace (snd (callMCPTool sample_builtins sample_stdioServers ''constructor'' ''git_status'' (JObj [])
        (Some (TypeError ''The "file" argument must be of type string. Received undefined''))
        (Inr (JObj [])) new_StdioClientManager))
       = [Connect ''constructor'' None None 1 0]
   \<and> fst (callMCPTool sample_builtins sample_stdioServers ''constructor'' ''git_status'' (JObj [])
        (Some (TypeError ''The "file" argument must be of type string. Received undefined''))
        (Inr (JObj [])) new_StdioClientManager)
       = Thrown (TypeError ''The "file" argument must be of type string. Received undefined'')
   \<and> map_of sample_httpServers ''constructor'' = None
   \<and> fst (callHTTPMCPTool sample_builtins rejecting_network sample_httpServers ''constructor''
        ''deploy'' (JObj []) (new_HTTPClientManager, []))
       = Thrown (TypeError ''Failed to parse URL from undefined'')
   \<and> http_clients (fst (snd (callHTTPMCPTool sample_builtins rejecting_network sample_httpServers
        ''constructor'' ''deploy'' (JObj []) (new_HTTPClientManager, [])))) ''constructor''
       = Some \<lparr>name = ''constructor'', config = \<lparr>url = None, headers = Map.empty\<rparr>,
               requestId = 1, initialized = False, serverInfo = JNull\<rparr>
   \<and> snd (snd (callHTTPMCPTool sample_builtins rejecting_network sample_httpServers
        ''constructor'' ''deploy'' (JObj []) (new_HTTPClientManager, [])))
       = [\<lparr>post_url = None, post_headers = [''Content-Type'' \<mapsto> ''application/json''],
           post_body = \<lparr>rq_id = 1, rq_method = ''initialize'',
                        rq_params = initialize_params ''constructor''\<rparr>\<rparr>]
   \<and> fst (initializeHTTPServer sample_builtins rejecting_network sample_httpServers ''constructor''
        (new_HTTPClientManager, []))
       = Thrown (TypeError ''Failed to parse URL from undefined'')\<close>
  by (simp add: initializeServer_def callMCPTool_def getClient_await_def
        StdioClientManager_getClient_def createClient_begin_def createClient_end_def
        getClient_resume_def awaited_def stdioServers_lookup_def httpServers_lookup_def
        Object_prototype_names_def callHTTPMCPTool_def initializeHTTPServer_def
        HTTPClientManager_getClient_def callTool_def initialize_def sendRequest_def
        sendRequest_begin_def sendRequest_end_def store_client_def new_HTTPMCPClient_def
        rejecting_network_def new_StdioClientManager_def new_HTTPClientManager_def
        sample_stdioServers_def sample_httpServers_def Let_def)

lemma stdio_cache_ok_new: "stdio_cache_ok reg new_StdioClientManager"
  by (simp add: stdio_cache_ok_def new_StdioClientManager_def)

lemma stdio_cache_ok_createClient_begin:
  assumes "stdio_cache_ok reg m" and np: "s \<notin> set Object_prototype_names"
  shows "stdio_cache_ok reg
           ((createClient_begin reg s m)\<lparr>initializing := (initializing m)(s \<mapsto> length (promises m))\<rparr>)"
  unfolding stdio_cache_ok_def
proof (intro allI impI conjI)
  fix s' assume un: "map_of reg s' = None"
  let ?m' = "(createClient_begin reg s m)\<lparr>initializing := (initializing m)(s \<mapsto> length (promises m))\<rparr>"
  show "clients ?m' s' = None"
    using assms un by (simp add: stdio_cache_ok_def)
  have inv: "\<And>q. initializing m s' = Some q \<Longrightarrow>
      q < length (promises m) \<and>
      promises m ! q = \<lparr>p_server = s', p_state = Rejected (unknown_stdio_server reg s')\<rparr>"
    using assms un by (simp add: stdio_cache_ok_def)
  have inv3: "\<And>q c t. q < length (promises m) \<Longrightarrow> p_server (promises m ! q) = s' \<Longrightarrow>
      p_state (promises m ! q) \<noteq> Pending c t"
    using assms un by (simp add: stdio_cache_ok_def)
  show "\<And>p. initializing ?m' s' = Some p \<Longrightarrow> p < length (promises ?m')"
  proof -
    fix p assume "initializing ?m' s' = Some p"
    then have "p = length (promises m) \<or> initializing m s' = Some p"
      by (simp split: if_splits)
    then show "p < length (promises ?m')" using inv[of p] by auto
  qed
  show "\<And>p. initializing ?m' s' = Some p \<Longrightarrow>
          promises ?m' ! p = \<lparr>p_server = s', p_state = Rejected (unknown_stdio_server reg s')\<rparr>"
  proof -
    fix p assume a: "initializing ?m' s' = Some p"
    show "promises ?m' ! p = \<lparr>p_server = s', p_state = Rejected (unknown_stdio_server reg s')\<rparr>"
    proof (cases "s' = s")
      case True
      then show ?thesis using a un np by (auto simp: stdioServers_lookup_plain)
    next
      case False
      then have "initializing m s' = Some p" using a by simp
      then show ?thesis using inv[of p] by (simp add: nth_append)
    qed
  qed
  show "\<And>p c t. p < length (promises ?m') \<Longrightarrow> p_server (promises ?m' ! p) = s' \<Longrightarrow>
          p_state (promises ?m' ! p) \<noteq> Pending c t"
  proof -
    fix p c t assume a: "p < length (promises ?m')" "p_server (promises ?m' ! p) = s'"
    show "p_state (promises ?m' ! p) \<noteq> Pending c t"
    proof (cases "p < length (promises m)")
      case True
      then show ?thesis using a inv3[of p c t] by (simp add: nth_append)
    next
      case False
      then have "p = length (promises m)" using a(1) by simp
      then show ?thesis using a(2) un np by (simp add: stdioServers_lookup_plain)
    qed
  qed
qed

lemma stdio_cache_ok_getClient:
  "stdio_cache_ok reg m \<Longrightarrow> s \<notin> set Object_prototype_names \<Longrightarrow>
     stdio_cache_ok reg (snd (StdioClientManager_getClient reg s m))"
  using stdio_cache_ok_createClient_begin[of reg m s]
  by (simp add: StdioClientManager_getClient_def Let_def split: option.splits)

lemma stdio_cache_ok_resume:
  "stdio_cache_ok reg m \<Longrightarrow> stdio_cache_ok reg (getClient_resume s m)"
  by (simp add: stdio_cache_ok_def)

lemma stdio_cache_ok_disconnect:
  "stdio_cache_ok reg m \<Longrightarrow> stdio_cache_ok reg (StdioClientManager_disconnect s closed m)"
  by (simp add: stdio_cache_ok_def StdioClientManager_disconnect_def split: option.splits)

lemma stdio_cache_ok_createClient_end:
  assumes ok: "stdio_cache_ok reg m"
  shows "stdio_cache_ok reg (createClient_end p connected m)"
proof (cases "p < length (promises m) \<and> (\<exists>c t. p_state (promises m ! p) = Pending c t)")
  case False
  then have "createClient_end p connected m = m"
    by (auto simp: createClient_end_def split: promise_state.splits)
  then show ?thesis using ok by simp
next
  case True
  then obtain c t where p: "p < length (promises m)" "p_state (promises m ! p) = Pending c t"
    by blast
  have known: "map_of reg (p_server (promises m ! p)) \<noteq> None"
    using ok p by (auto simp: stdio_cache_ok_def)
  show ?thesis
    unfolding stdio_cache_ok_def
  proof (intro allI impI conjI)
    fix s' assume un: "map_of reg s' = None"
    then have ne: "p_server (promises m ! p) \<noteq> s'" using known by auto
    let ?m' = "createClient_end p connected m"
    show "clients ?m' s' = None"
      using ok un p ne by (simp add: stdio_cache_ok_def createClient_end_def split: option.splits)
    show "\<And>q. initializing ?m' s' = Some q \<Longrightarrow> q < length (promises ?m')"
      using ok un by (simp add: stdio_cache_ok_def)
    show "\<And>q. initializing ?m' s' = Some q \<Longrightarrow>
            promises ?m' ! q = \<lparr>p_server = s', p_state = Rejected (unknown_stdio_server reg s')\<rparr>"
    proof -
      fix q assume q: "initializing ?m' s' = Some q"
      then have q': "initializing m s' = Some q" by simp
      then have pq: "promises m ! q = \<lparr>p_server = s', p_state = Rejected (unknown_stdio_server reg s')\<rparr>"
        using ok un by (simp add: stdio_cache_ok_def)
      then have "q \<noteq> p" using p(2) by auto
      then show "promises ?m' ! q = \<lparr>p_server = s', p_state = Rejected (unknown_stdio_server reg s')\<rparr>"
        using pq p by (simp add: createClient_end_def split: option.splits)
    qed
    show "\<And>q c' t'. q < length (promises ?m') \<Longrightarrow> p_server (promises ?m' ! q) = s' \<Longrightarrow>
            p_state (promises ?m' ! q) \<noteq> Pending c' t'"
    proof -
      fix q c' t' assume q: "q < length (promises ?m')" "p_server (promises ?m' ! q) = s'"
      have ql: "q < length (promises m)" using q(1) by simp
      show "p_state (promises ?m' ! q) \<noteq> Pending c' t'"
      proof (cases "q = p")
        case True
        then show ?thesis using p by (simp add: createClient_end_def split: option.splits)
      next
        case False
        then have same: "promises ?m' ! q = promises m ! q"
          using p by (simp add: createClient_end_def split: option.splits)
        then show ?thesis using ok un ql q(2) by (simp add: stdio_cache_ok_def)
      qed
    qed
  qed
qed

lemma stdio_cache_ok_getClient_await:
  "stdio_cache_ok reg m \<Longrightarrow> s \<notin> set Object_prototype_names \<Longrightarrow>
     stdio_cache_ok reg (snd (getClient_await reg s connected m))"
  using stdio_cache_ok_getClient[of reg m s]
  by (cases "StdioClientManager_getClient reg s m")
     (auto simp: getClient_await_def Let_def stdio_cache_ok_resume stdio_cache_ok_createClient_end
           split: getClient_return.splits)

lemma stdio_cache_ok_trace: "stdio_cache_ok reg m \<Longrightarrow> stdio_cache_ok reg (m\<lparr>trace := tr\<rparr>)"
  by (simp add: stdio_cache_ok_def)

lemma stdio_cache_ok_callMCPTool:
  "stdio_cache_ok reg m \<Longrightarrow> s \<notin> set Object_prototype_names \<Longrightarrow>
     stdio_cache_ok reg (snd (callMCPTool b reg s t a connected called m))"
  using stdio_cache_ok_getClient_await[of reg m s connected]
  by (cases "getClient_await reg s connected m")
     (auto simp: callMCPTool_def Let_def stdio_cache_ok_trace split: outcome.splits sum.splits)

lemma stdio_cache_ok_initializeServer:
  "stdio_cache_ok reg m \<Longrightarrow> s \<notin> set Object_prototype_names \<Longrightarrow>
     stdio_cache_ok reg (snd (initializeServer reg s connected m))"
  using stdio_cache_ok_getClient_await[of reg m s connected]
  by (cases "getClient_await reg s connected m")
     (auto simp: initializeServer_def split: outcome.splits)

lemma stdio_cache_ok_stdio_listTools:
  "stdio_cache_ok reg m \<Longrightarrow> s \<notin> set Object_prototype_names \<Longrightarrow>
     stdio_cache_ok reg (snd (stdio_listTools reg s connected listed m))"
  using stdio_cache_ok_getClient_await[of reg m s connected]
  by (cases "getClient_await reg s connected m")
     (auto simp: stdio_listTools_def Let_def stdio_cache_ok_trace split: outcome.splits sum.splits)

lemma http_cache_ok_new: "http_cache_ok hreg new_HTTPClientManager"
  by (simp add: http_cache_ok_def new_HTTPClientManager_def)

lemma http_cache_ok_disconnect:
  "http_cache_ok hreg m \<Longrightarrow> http_cache_ok hreg (HTTPClientManager_disconnect s m)"
  by (auto simp: http_cache_ok_def HTTPClientManager_disconnect_def)

lemma http_cache_ok_getClient:
  assumes "http_cache_ok hreg m" "HTTPClientManager_getClient hreg s m = Inr (c, m')"
    and np: "s \<notin> set Object_prototype_names"
  shows "http_cache_ok hreg m'" and "http_clients m' s = Some c"
proof -
  show "http_clients m' s = Some c"
    using assms(2)
    by (auto simp: HTTPClientManager_getClient_def Let_def split: option.splits)
  show "http_cache_ok hreg m'"
  proof (cases "http_clients m s")
    case (Some c')
    then show ?thesis using assms by (simp add: HTTPClientManager_getClient_def)
  next
    case None
    then obtain cfg where k: "map_of hreg s = Some cfg"
      and m': "m' = m\<lparr>http_clients := (http_clients m)(s \<mapsto> new_HTTPMCPClient s cfg)\<rparr>"
      using assms(2) np
      by (auto simp: HTTPClientManager_getClient_def httpServers_lookup_plain Let_def
            split: option.splits)
    have "s \<in> fst ` set hreg" using k by (metis map_of_None_iff option.distinct(1))
    then show ?thesis using assms(1) m' by (auto simp: http_cache_ok_def)
  qed
qed

lemma http_cache_ok_store:
  "http_cache_ok hreg m \<Longrightarrow> http_clients m s \<noteq> None \<Longrightarrow> http_cache_ok hreg (store_client s c m)"
  by (auto simp: http_cache_ok_def store_client_def)

lemma http_cache_ok_callHTTPMCPTool:
  assumes "http_cache_ok hreg (fst st)" and np: "s \<notin> set Object_prototype_names"
  shows "http_cache_ok hreg (fst (snd (callHTTPMCPTool b net hreg s t a st)))"
proof (cases "HTTPClientManager_getClient hreg s (fst st)")
  case (Inl e)
  then show ?thesis using assms(1) by (simp add: callHTTPMCPTool_def)
next
  case (Inr cm)
  obtain c m' where cm: "cm = (c, m')" by (cases cm)
  note g = http_cache_ok_getClient[OF assms(1) Inr[unfolded cm] np]
  have "http_cache_ok hreg (store_client s c' m')" for c'
    using g by (simp add: http_cache_ok_store)
  then show ?thesis
    by (simp add: callHTTPMCPTool_def Inr cm split_beta)
qed

lemma http_cache_ok_initializeHTTPServer:
  assumes "http_cache_ok hreg (fst st)" and np: "s \<notin> set Object_prototype_names"
  shows "http_cache_ok hreg (fst (snd (initializeHTTPServer b net hreg s st)))"
proof (cases "HTTPClientManager_getClient hreg s (fst st)")
  case (Inl e)
  then show ?thesis using assms(1) by (simp add: initializeHTTPServer_def)
next
  case (Inr cm)
  obtain c m' where cm: "cm = (c, m')" by (cases cm)
  note g = http_cache_ok_getClient[OF assms(1) Inr[unfolded cm] np]
  have "http_cache_ok hreg (store_client s c' m')" for c'
    using g by (simp add: http_cache_ok_store)
  then show ?thesis
    by (simp add: initializeHTTPServer_def Inr cm split_beta)
qed

lemma http_cache_ok_listHTTPTools:
  assumes "http_cache_ok hreg (fst st)" and np: "s \<notin> set Object_prototype_names"
  shows "http_cache_ok hreg (fst (snd (listHTTPTools b net hreg s st)))"
proof (cases "HTTPClientManager_getClient hreg s (fst st)")
  case (Inl e)
  then show ?thesis using assms(1) by (simp add: listHTTPTools_def)
next
  case (Inr cm)
  obtain c m' where cm: "cm = (c, m')" by (cases cm)
  note g = http_cache_ok_getClient[OF assms(1) Inr[unfolded cm] np]
  have "http_cache_ok hreg (store_client s c' m')" for c'
    using g by (simp add: http_cache_ok_store)
  then show ?thesis
    by (simp add: listHTTPTools_def Inr cm split_beta)
qed

lemma disconnect_absent:
  "clients m s = None \<Longrightarrow> StdioClientManager_disconnect s closed m = m"
  by (simp add: StdioClientManager_disconnect_def)

lemma disconnect_clients [simp]:
  "clients (StdioClientManager_disconnect s closed m) = (clients m)(s := None)"
  by (auto simp: StdioClientManager_disconnect_def split: option.splits)

lemma disconnect_transports:
  "s' \<noteq> s \<Longrightarrow> transports (StdioClientManager_disconnect s closed m) s' = transports m s'"
  by (simp add: StdioClientManager_disconnect_def split: option.splits)

lemma http_disconnect_absent:
  "http_clients hm s = None \<Longrightarrow> HTTPClientManager_disconnect s hm = hm"
  by (simp add: HTTPClientManager_disconnect_def fun_upd_idem)

text \<open>
  C8. Disconnecting a name with no cached client (in particular a name outside the
  registry, in a state that satisfies the invariant) leaves the manager exactly as it
  was, trace included; disconnecting twice is disconnecting once; the entries of every
  other name are untouched. The same holds of the HTTP manager.
\<close>

theorem disconnect_idempotent:
  "(clients m s = None \<longrightarrow> StdioClientManager_disconnect s closed m = m)
   \<and> (stdio_cache_ok reg m \<and> map_of reg s = None \<longrightarrow> StdioClientManager_disconnect s closed m = m)
   \<and> StdioClientManager_disconnect s closed' (StdioClientManager_disconnect s closed m)
       = StdioClientManager_disconnect s closed m
   \<and> (s' \<noteq> s \<longrightarrow>
        clients (StdioClientManager_disconnect s closed m) s' = clients m s'
        \<and> transports (StdioClientManager_disconnect s closed m) s' = transports m s')
   \<and> (http_clients hm s = None \<longrightarrow> HTTPClientManager_disconnect s hm = hm)
   \<and> (http_cache_ok hreg hm \<and> map_of hreg s = None \<longrightarrow> HTTPClientManager_disconnect s hm = hm)
   \<and> HTTPClientManager_disconnect s (HTTPClientManager_disconnect s hm)
       = HTTPClientManager_disconnect s hm
   \<and> (s' \<noteq> s \<longrightarrow> http_clients (HTTPClientManager_disconnect s hm) s' = http_clients hm s')"
proof (intro conjI impI)
  show "clients m s = None \<Longrightarrow> StdioClientManager_disconnect s closed m = m"
    by (rule disconnect_absent)
  show "stdio_cache_ok reg m \<and> map_of reg s = None \<Longrightarrow> StdioClientManager_disconnect s closed m = m"
    using stdio_cache_ok_unknown(1)[of reg m s] by (simp add: disconnect_absent)
  show "StdioClientManager_disconnect s closed' (StdioClientManager_disconnect s closed m)
       = StdioClientManager_disconnect s closed m"
    by (rule disconnect_absent) simp
  show "s' \<noteq> s \<Longrightarrow> clients (StdioClientManager_disconnect s closed m) s' = clients m s'"
    by simp
  show "s' \<noteq> s \<Longrightarrow> transports (StdioClientManager_disconnect s closed m) s' = transports m s'"
    by (rule disconnect_transports)
  show "http_clients hm s = None \<Longrightarrow> HTTPClientManager_disconnect s hm = hm"
    by (rule http_disconnect_absent)
  show "http_cache_ok hreg hm \<and> map_of hreg s = None \<Longrightarrow> HTTPClientManager_disconnect s hm = hm"
  proof -
    assume h: "http_cache_ok hreg hm \<and> map_of hreg s = None"
    then have "s \<notin> dom (http_clients hm)" by (auto simp: http_cache_ok_def map_of_None_iff)
    then have "http_clients hm s = None" by blast
    then show ?thesis by (rule http_disconnect_absent)
  qed
  show "HTTPClientManager_disconnect s (HTTPClientManager_disconnect s hm)
       = HTTPClientManager_disconnect s hm"
    by (simp add: HTTPClientManager_disconnect_def)
  show "s' \<noteq> s \<Longrightarrow> http_clients (HTTPClientManager_disconnect s hm) s' = http_clients hm s'"
    by (simp add: HTTPClientManager_disconnect_def)
qed







theorem disconnect_idempotent_witness:
  \<open>(clients (snd (getClient_await sample_stdioServers ''git'' None new_StdioClientManager)) ''memory'' = None
   \<and> StdioClientManager_disconnect ''memory'' None
        (snd (getClient_await sample_stdioServers ''git'' None new_StdioClientManager))
       = snd (getClient_await sample_stdioServers ''git'' None new_StdioClientManager)
   \<and> clients (snd (getClient_await sample_stdioServers ''git'' None new_StdioClientManager)) ''git'' = Some 1
   \<and> StdioClientManager_disconnect ''git'' None
        (StdioClientManager_disconnect ''git'' None
          (snd (getClient_await sample_stdioServers ''git'' None new_StdioClientManager)))
       = StdioClientManager_disconnect ''git'' None
          (snd (getClient_await sample_stdioServers ''git'' None new_StdioClientManager))
   \<and> http_clients new_HTTPClientManager ''stripe'' = None
   \<and> HTTPClientManager_disconnect ''stripe'' new_HTTPClientManager = new_HTTPClientManager)
   \<and> (stdio_cache_ok sample_stdioServers new_StdioClientManager
   \<and> map_of sample_stdioServers ''nope'' = None
   \<and> StdioClientManager_disconnect ''nope'' None new_StdioClientManager = new_StdioClientManager
   \<and> http_cache_ok sample_httpServers new_HTTPClientManager
   \<and> map_of sample_httpServers ''nope'' = None
   \<and> HTTPClientManager_disconnect ''nope'' new_HTTPClientManager = new_HTTPClientManager)\<close>
proof -
  have first: \<open>clients (snd (getClient_await sample_stdioServers ''git'' None new_StdioClientManager)) ''memory'' = None
   \<and> StdioClientManager_disconnect ''memory'' None
        (snd (getClient_await sample_stdioServers ''git'' None new_StdioClientManager))
       = snd (getClient_await sample_stdioServers ''git'' None new_StdioClientManager)
   \<and> clients (snd (getClient_await sample_stdioServers ''git'' None new_StdioClientManager)) ''git'' = Some 1
   \<and> StdioClientManager_disconnect ''git'' None
        (StdioClientManager_disconnect ''git'' None
          (snd (getClient_await sample_stdioServers ''git'' None new_StdioClientManager)))
       = StdioClientManager_disconnect ''git'' None
          (snd (getClient_await sample_stdioServers ''git'' None new_StdioClientManager))
   \<and> http_clients new_HTTPClientManager ''stripe'' = None
   \<and> HTTPClientManager_disconnect ''stripe'' new_HTTPClientManager = new_HTTPClientManager\<close>
  proof -
    let ?m0 = "snd (getClient_await sample_stdioServers ''git'' None new_StdioClientManager)"
    have a: "clients ?m0 ''memory'' = None"
      by (simp add: getClient_await_def StdioClientManager_getClient_def createClient_begin_def
            stdioServers_lookup_def createClient_end_def getClient_resume_def
            new_StdioClientManager_def sample_stdioServers_def Let_def)
    have b: "clients ?m0 ''git'' = Some 1"
      by (simp add: getClient_await_def StdioClientManager_getClient_def createClient_begin_def
            stdioServers_lookup_def createClient_end_def getClient_resume_def
            new_StdioClientManager_def sample_stdioServers_def Let_def)
    have c: "http_clients new_HTTPClientManager ''stripe'' = None"
      by (simp add: new_HTTPClientManager_def)
    show ?thesis
      using a b c
        disconnect_idempotent[where m = ?m0 and s = "''memory''" and closed = None
          and hm = new_HTTPClientManager and s' = "''git''" and reg = sample_stdioServers
          and hreg = sample_httpServers and closed' = None]
        disconnect_idempotent[where m = ?m0 and s = "''git''" and closed = None and closed' = None
          and hm = new_HTTPClientManager and s' = "''memory''" and reg = sample_stdioServers
          and hreg = sample_httpServers]
        disconnect_idempotent[where s = "''stripe''" and hm = new_HTTPClientManager
          and m = ?m0 and closed = None and closed' = None and s' = "''git''"
          and reg = sample_stdioServers and hreg = sample_httpServers]
      by simp
  qed
  have second: \<open>stdio_cache_ok sample_stdioServers new_StdioClientManager
   \<and> map_of sample_stdioServers ''nope'' = None
   \<and> StdioClientManager_disconnect ''nope'' None new_StdioClientManager = new_StdioClientManager
   \<and> http_cache_ok sample_httpServers new_HTTPClientManager
   \<and> map_of sample_httpServers ''nope'' = None
   \<and> HTTPClientManager_disconnect ''nope'' new_HTTPClientManager = new_HTTPClientManager\<close>
  proof -
    have a: "stdio_cache_ok sample_stdioServers new_StdioClientManager \<and> map_of sample_stdioServers ''nope'' = None"
      by (simp add: stdio_cache_ok_new sample_stdioServers_def)
    have b: "http_cache_ok sample_httpServers new_HTTPClientManager \<and> map_of sample_httpServers ''nope'' = None"
      by (simp add: http_cache_ok_new sample_httpServers_def)
    show ?thesis
      using a b disconnect_idempotent[where m = new_StdioClientManager and s = "''nope''"
          and reg = sample_stdioServers and hreg = sample_httpServers
          and hm = new_HTTPClientManager and closed = None]
      by simp
  qed
  show ?thesis
    using first second by (rule conjI)
qed



section \<open>Properties of the stdio wrapper\<close>

lemma processLine_blank: "trim line = [] \<Longrightarrow> processLine b reply line w = w"
  by (simp add: processLine_def)

lemma checkExit_open: "\<not> stdinEnded w \<Longrightarrow> checkExit w = w"
  by (simp add: checkExit_def)

lemma processLine_effect:
  "trim line \<noteq> [] \<Longrightarrow>
     processLine b reply line w =
       checkExit (w\<lparr>net_log := net_log w @ line_requests b reply line,
                    stdout := stdout w @ line_responses b reply line\<rparr>)"
  by (cases "handle b reply (projr (JSON_parse b line))")
     (auto simp: processLine_def line_responses_def line_requests_def Let_def
        processLine_catch_def respond_def
        split: sum.splits prod.splits)

lemma processLine_open:
  assumes "\<not> stdinEnded w"
  shows "processLine b reply line w =
           w\<lparr>net_log := net_log w @ line_requests b reply line,
             stdout := stdout w @ line_responses b reply line\<rparr>"
proof (cases "trim line = []")
  case True
  then show ?thesis by (simp add: processLine_blank line_responses_def line_requests_def)
next
  case False
  then show ?thesis using assms by (simp add: processLine_effect checkExit_open)
qed

lemma malformed_responses:
  "trim line \<noteq> [] \<Longrightarrow> JSON_parse b line = Inl msg \<Longrightarrow>
     line_responses b reply line = [error_envelope JNull (- 32603) msg]
     \<and> line_requests b reply line = []"
  by (simp add: line_responses_def line_requests_def)

lemma forwards_handle:
  "forwards request \<Longrightarrow> handle b reply request = forward b reply request"
  "\<not> forwards request \<Longrightarrow> fst (handle b reply request) = []"
  by (cases "truthy request"; simp add: forwards_def handle_def Let_def)+

lemma forward_fst:
  "fst (forward b reply request) = Posted request # (if timer_fires reply then [Aborted] else [])"
  by (simp add: forward_def)

text \<open>
  \<open>processLine\<close> is its start followed, for a call that suspends, by its
  continuation.
\<close>

lemma processLine_split:
  "processLine b reply line w =
     (case snd (processLine_start b reply line w) of
        None \<Rightarrow> fst (processLine_start b reply line w)
      | Some s \<Rightarrow> processLine_resume b s (fst (processLine_start b reply line w)))"
proof (cases "trim line = []")
  case True
  then show ?thesis by (simp add: processLine_def processLine_start_def)
next
  case False
  show ?thesis
  proof (cases "JSON_parse b line")
    case (Inl m)
    then show ?thesis using False by (simp add: processLine_def processLine_start_def Let_def)
  next
    case (Inr request)
    show ?thesis
    proof (cases "forwards request")
      case True
      obtain res where res: "snd (forward b reply request) = res" by simp
      have "handle b reply request
              = (Posted request # (if timer_fires reply then [Aborted] else []), res)"
        using forwards_handle(1)[OF True, of b reply] forward_fst[of b reply request] res
        by (metis prod.collapse)
      then show ?thesis
        using False Inr True res
        by (simp add: processLine_def processLine_start_def processLine_resume_def Let_def
              split: sum.splits)
    next
      case False2: False
      obtain res where res: "snd (handle b reply request) = res" by simp
      have "handle b reply request = ([], res)"
        using forwards_handle(2)[OF False2, of b reply] res by (metis prod.collapse)
      then show ?thesis
        using False Inr False2
        by (simp add: processLine_def processLine_start_def processLine_resume_def Let_def
              split: sum.splits)
    qed
  qed
qed

lemma processLine_start_open:
  assumes "\<not> stdinEnded w"
  shows "stdout (fst (processLine_start b reply line w)) = stdout w @ early_response b line"
    and "net_log (fst (processLine_start b reply line w))
           = net_log w @ concat (map posted_request (suspension b reply line))"
    and "pendingRequests (fst (processLine_start b reply line w))
           = pendingRequests w + int (length (suspension b reply line))"
    and "stdinEnded (fst (processLine_start b reply line w)) = stdinEnded w"
    and "exit_code (fst (processLine_start b reply line w)) = exit_code w"
    and "(case snd (processLine_start b reply line w) of None \<Rightarrow> [] | Some x \<Rightarrow> [x])
           = suspension b reply line"
  using assms
  by (simp_all add: processLine_start_def early_response_def suspension_def Let_def
        checkExit_def processLine_catch_def respond_def split: sum.splits)

lemma start_lines_open:
  "\<not> stdinEnded (fst st) \<Longrightarrow>
     stdout (fst (start_lines b ls st)) = stdout (fst st) @ early_responses b ls
     \<and> snd (start_lines b ls st) = snd st @ suspensions b ls
     \<and> net_log (fst (start_lines b ls st))
         = net_log (fst st) @ concat (map posted_request (suspensions b ls))
     \<and> pendingRequests (fst (start_lines b ls st))
         = pendingRequests (fst st) + int (length (suspensions b ls))
     \<and> stdinEnded (fst (start_lines b ls st)) = stdinEnded (fst st)
     \<and> exit_code (fst (start_lines b ls st)) = exit_code (fst st)"
proof (induction ls arbitrary: st)
  case Nil
  then show ?case by (simp add: early_responses_def suspensions_def)
next
  case (Cons l ls)
  let ?r = "processLine_start b (snd l) (fst l) (fst st)"
  let ?st1 = "(fst ?r, snd st @ (case snd ?r of None \<Rightarrow> [] | Some x \<Rightarrow> [x]))"
  have step: "start_lines b (l # ls) st = start_lines b ls ?st1"
    by (simp add: split_beta)
  note p = processLine_start_open[OF Cons.prems, where b = b and reply = "snd l" and line = "fst l"]
  have "\<not> stdinEnded (fst ?st1)" using p(4) Cons.prems by simp
  from Cons.IH[OF this] show ?case
    using p by (simp add: step early_responses_def suspensions_def del: start_lines.simps)
qed

lemma processLine_resume_open:
  assumes "\<not> stdinEnded w"
  shows "stdout (processLine_resume b s w) = stdout w @ resume_response b s"
    and "pendingRequests (processLine_resume b s w) = pendingRequests w - 1"
    and "stdinEnded (processLine_resume b s w) = stdinEnded w"
    and "exit_code (processLine_resume b s w) = exit_code w"
    and "is_answered s \<Longrightarrow> net_log (processLine_resume b s w) = net_log w"
  using assms
  by (cases s;
      simp add: processLine_resume_def resume_response_def Let_def checkExit_def
        processLine_catch_def respond_def split: sum.splits)+

lemma run_microtasks_open:
  "\<not> stdinEnded w \<Longrightarrow>
     stdout (fst (run_microtasks b ss w))
         = stdout w @ concat (map (resume_response b) (filter is_answered ss))
     \<and> snd (run_microtasks b ss w) = filter (\<lambda>s. \<not> is_answered s) ss
     \<and> net_log (fst (run_microtasks b ss w)) = net_log w
     \<and> pendingRequests (fst (run_microtasks b ss w))
         = pendingRequests w - int (length (filter is_answered ss))
     \<and> stdinEnded (fst (run_microtasks b ss w)) = stdinEnded w
     \<and> exit_code (fst (run_microtasks b ss w)) = exit_code w"
proof (induction b ss w rule: run_microtasks.induct)
  case (1 b w)
  then show ?case by simp
next
  case (2 b res ss w)
  note r = processLine_resume_open[OF 2(2), where b = b and s = "Answered res"]
  have "\<not> stdinEnded (processLine_resume b (Answered res) w)" using r(3) 2(2) by simp
  from 2(1)[OF this] show ?case using r by simp
next
  case (3 b request reply ss w)
  from 3(1)[OF 3(2)] show ?case by (simp add: split_beta)
qed

lemma on_lines_open:
  assumes "\<not> stdinEnded w"
  shows "stdout (fst (on_lines b ls (w, fl)))
           = stdout w @ early_responses b ls @ microtask_responses b ls"
    and "snd (on_lines b ls (w, fl)) = fl @ left_in_flight b ls"
    and "net_log (fst (on_lines b ls (w, fl)))
           = net_log w @ concat (map posted_request (suspensions b ls))"
    and "pendingRequests (fst (on_lines b ls (w, fl)))
           = pendingRequests w + int (length (left_in_flight b ls))"
    and "exit_code (fst (on_lines b ls (w, fl))) = exit_code w"
    and "stdinEnded (fst (on_lines b ls (w, fl))) = stdinEnded w"
proof -
  let ?a = "start_lines b ls (w, [])"
  have a: "stdout (fst ?a) = stdout w @ early_responses b ls"
    "snd ?a = suspensions b ls"
    "net_log (fst ?a) = net_log w @ concat (map posted_request (suspensions b ls))"
    "pendingRequests (fst ?a) = pendingRequests w + int (length (suspensions b ls))"
    "stdinEnded (fst ?a) = stdinEnded w" "exit_code (fst ?a) = exit_code w"
    using start_lines_open[where st = "(w, [])" and b = b and ls = ls] assms by simp_all
  have o: "\<not> stdinEnded (fst ?a)" using a(5) assms by simp
  note m = run_microtasks_open[OF o, where b = b and ss = "snd ?a", unfolded a]
  have len: "int (length (suspensions b ls)) - int (length (filter is_answered (suspensions b ls)))
               = int (length (left_in_flight b ls))"
    using sum_length_filter_compl[of is_answered "suspensions b ls"]
    by (simp add: left_in_flight_def)
  show "stdout (fst (on_lines b ls (w, fl)))
           = stdout w @ early_responses b ls @ microtask_responses b ls"
    using m by (simp add: on_lines_def Let_def a microtask_responses_def)
  show "snd (on_lines b ls (w, fl)) = fl @ left_in_flight b ls"
    using m by (simp add: on_lines_def Let_def a left_in_flight_def)
  show "net_log (fst (on_lines b ls (w, fl)))
           = net_log w @ concat (map posted_request (suspensions b ls))"
    using m by (simp add: on_lines_def Let_def a)
  show "pendingRequests (fst (on_lines b ls (w, fl)))
           = pendingRequests w + int (length (left_in_flight b ls))"
    using m len by (simp add: on_lines_def Let_def a)
  show "exit_code (fst (on_lines b ls (w, fl))) = exit_code w"
    using m by (simp add: on_lines_def Let_def a)
  show "stdinEnded (fst (on_lines b ls (w, fl))) = stdinEnded w"
    using m by (simp add: on_lines_def Let_def a)
qed

lemma malformed_in_chunk:
  assumes "trim line \<noteq> []" "JSON_parse b line = Inl msg"
  shows "early_responses b (xs @ (line, reply) # ys)
           = early_responses b xs @ [error_envelope JNull (- 32603) msg] @ early_responses b ys"
    and "suspensions b (xs @ (line, reply) # ys) = suspensions b (xs @ ys)"
    and "microtask_responses b (xs @ (line, reply) # ys) = microtask_responses b (xs @ ys)"
    and "left_in_flight b (xs @ (line, reply) # ys) = left_in_flight b (xs @ ys)"
  using assms
  by (simp_all add: early_responses_def suspensions_def microtask_responses_def
        left_in_flight_def early_response_def suspension_def)

lemma early_responses_append:
  "early_responses b (xs @ ys) = early_responses b xs @ early_responses b ys"
  by (simp add: early_responses_def)

lemma exchange_completes_open:
  "\<not> stdinEnded (fst st) \<Longrightarrow> i < length (snd st) \<Longrightarrow>
     stdout (fst (exchange_completes b i st))
       = stdout (fst st) @ resume_response b (snd st ! i)"
  by (simp add: exchange_completes_def processLine_resume_open)

text \<open>
  C7, as the claim states it, fails on the wrapper: a malformed line is not dropped
  silently, \<open>processLine\<close> catches the parse error and writes an error response for it.
\<close>

theorem malformed_line_counterexample:
  "stdout (processLine sample_builtins No_reply ''{oops'' new_wrapper)
     = [JObj [(''jsonrpc'', JStr ''2.0''), (''id'', JNull),
              (''error'', JObj [(''code'', JNum (- 32603)), (''message'', JStr ''Unexpected token'')])]]
   \<and> stdout (processLine sample_builtins No_reply ''{oops'' new_wrapper) \<noteq> stdout new_wrapper"
  by (simp add: processLine_def trim_def js_space_def sample_builtins_def sample_JSON_parse_def
        processLine_catch_def respond_def error_envelope_def checkExit_def new_wrapper_def Let_def)

text \<open>
  C7, amended. For a line that is not blank and not valid JSON, \<open>processLine\<close> writes
  exactly one response to stdout, the JSON-RPC error envelope with id \<open>null\<close>, code
  -32603 and the parser's message, and makes no network request; it does so during the
  call, so this response precedes the responses to the other lines of its chunk, which
  are written when their suspended calls resume. While stdin is open the process does
  not exit and its counter of pending requests is back where it was. The other lines
  of the chunk get the responses they get without it, in the same order, the same
  calls are left in flight and the network sees the same requests; and a call that is
  in flight when the line arrives writes its response when its exchange completes, as
  it does without the line. A blank line is dropped without any response.
\<close>

theorem malformed_line_answered_with_error:
  "(trim line \<noteq> [] \<and> JSON_parse b line = Inl msg \<longrightarrow>
      processLine b reply line w
        = checkExit (w\<lparr>stdout := stdout w @ [error_envelope JNull (- 32603) msg]\<rparr>)
      \<and> processLine_start b reply line w = (processLine b reply line w, None)
      \<and> (\<not> stdinEnded w \<longrightarrow>
            processLine b reply line w = w\<lparr>stdout := stdout w @ [error_envelope JNull (- 32603) msg]\<rparr>
          \<and> stdout (fst (on_lines b (xs @ (line, reply) # ys) (w, fl)))
              = stdout w @ early_responses b xs @ [error_envelope JNull (- 32603) msg]
                  @ early_responses b ys @ microtask_responses b (xs @ ys)
          \<and> stdout (fst (on_lines b (xs @ ys) (w, fl)))
              = stdout w @ early_responses b xs @ early_responses b ys
                  @ microtask_responses b (xs @ ys)
          \<and> snd (on_lines b (xs @ (line, reply) # ys) (w, fl)) = fl @ left_in_flight b (xs @ ys)
          \<and> snd (on_lines b (xs @ ys) (w, fl)) = fl @ left_in_flight b (xs @ ys)
          \<and> net_log (fst (on_lines b (xs @ (line, reply) # ys) (w, fl)))
              = net_log (fst (on_lines b (xs @ ys) (w, fl)))
          \<and> pendingRequests (fst (on_lines b (xs @ (line, reply) # ys) (w, fl)))
              = pendingRequests (fst (on_lines b (xs @ ys) (w, fl)))
          \<and> exit_code (fst (on_lines b (xs @ (line, reply) # ys) (w, fl))) = exit_code w
          \<and> (i < length fl \<longrightarrow>
                stdout (fst (exchange_completes b i (on_lines b [(line, reply)] (w, fl))))
                  = stdout w @ [error_envelope JNull (- 32603) msg] @ resume_response b (fl ! i)
              \<and> stdout (fst (exchange_completes b i (w, fl)))
                  = stdout w @ resume_response b (fl ! i))))
   \<and> (trim line = [] \<longrightarrow> processLine b reply line w = w)"
proof (intro conjI impI)
  assume h: "trim line \<noteq> [] \<and> JSON_parse b line = Inl msg"
  note m = malformed_responses[OF conjunct1[OF h] conjunct2[OF h], of reply]
  note c = malformed_in_chunk[OF conjunct1[OF h] conjunct2[OF h], where reply = reply
      and xs = xs and ys = ys]
  note c0 = malformed_in_chunk[OF conjunct1[OF h] conjunct2[OF h], where reply = reply
      and xs = "[]" and ys = "[]"]
  show "processLine b reply line w
        = checkExit (w\<lparr>stdout := stdout w @ [error_envelope JNull (- 32603) msg]\<rparr>)"
    using h m by (simp add: processLine_effect)
  show "processLine_start b reply line w = (processLine b reply line w, None)"
    using h by (simp add: processLine_def processLine_start_def Let_def)
  assume o: "\<not> stdinEnded w"
  show "processLine b reply line w = w\<lparr>stdout := stdout w @ [error_envelope JNull (- 32603) msg]\<rparr>"
    using m o by (simp add: processLine_open)
  show "stdout (fst (on_lines b (xs @ (line, reply) # ys) (w, fl)))
              = stdout w @ early_responses b xs @ [error_envelope JNull (- 32603) msg]
                  @ early_responses b ys @ microtask_responses b (xs @ ys)"
    using c(1) c(3) by (simp add: on_lines_open(1)[OF o])
  show "stdout (fst (on_lines b (xs @ ys) (w, fl)))
              = stdout w @ early_responses b xs @ early_responses b ys
                  @ microtask_responses b (xs @ ys)"
    by (simp add: on_lines_open(1)[OF o] early_responses_append)
  show "snd (on_lines b (xs @ (line, reply) # ys) (w, fl)) = fl @ left_in_flight b (xs @ ys)"
    using c(4) by (simp add: on_lines_open(2)[OF o])
  show "snd (on_lines b (xs @ ys) (w, fl)) = fl @ left_in_flight b (xs @ ys)"
    by (simp add: on_lines_open(2)[OF o])
  show "net_log (fst (on_lines b (xs @ (line, reply) # ys) (w, fl)))
              = net_log (fst (on_lines b (xs @ ys) (w, fl)))"
    using c(2) by (simp add: on_lines_open(3)[OF o])
  show "pendingRequests (fst (on_lines b (xs @ (line, reply) # ys) (w, fl)))
              = pendingRequests (fst (on_lines b (xs @ ys) (w, fl)))"
    using c(4) by (simp add: on_lines_open(4)[OF o])
  show "exit_code (fst (on_lines b (xs @ (line, reply) # ys) (w, fl))) = exit_code w"
    by (simp add: on_lines_open(5)[OF o])
  assume i: "i < length fl"
  have one: "stdout (fst (on_lines b [(line, reply)] (w, fl)))
               = stdout w @ [error_envelope JNull (- 32603) msg]"
    "snd (on_lines b [(line, reply)] (w, fl)) = fl"
    "\<not> stdinEnded (fst (on_lines b [(line, reply)] (w, fl)))"
    using c0(1) c0(3) c0(4) o
    by (simp_all add: on_lines_open[OF o] early_responses_def microtask_responses_def
          left_in_flight_def suspensions_def)
  show "stdout (fst (exchange_completes b i (on_lines b [(line, reply)] (w, fl))))
          = stdout w @ [error_envelope JNull (- 32603) msg] @ resume_response b (fl ! i)"
    using exchange_completes_open[OF one(3), where i = i and b = b] i one(1,2)
    by simp
  show "stdout (fst (exchange_completes b i (w, fl))) = stdout w @ resume_response b (fl ! i)"
    using exchange_completes_open[where st = "(w, fl)" and i = i and b = b] o i by simp
next
  show "trim line = [] \<Longrightarrow> processLine b reply line w = w"
    by (rule processLine_blank)
qed

lemma handle_tools_call:
  "field request ''method'' = JStr ''tools/call'' \<Longrightarrow> handle b reply request = forward b reply request"
  by (cases request) (simp_all add: handle_def Let_def)

lemma forward_timed_out:
  "timer_fires reply \<Longrightarrow>
     forward b reply request
       = ([Posted request, Aborted], Inl (Error ''Request timed out after 180 seconds''))"
  by (simp add: forward_def forward_try_def)

lemma forward_in_time:
  "\<not> timer_fires reply \<Longrightarrow> fst (forward b reply request) = [Posted request]"
  by (simp add: forward_def)

lemma sendRequest_end_never:
  "sendRequest_end b reply = Never_settles \<longleftrightarrow> reply = No_reply"
  by (cases reply)
     (auto simp: sendRequest_end_def split: sum.splits prod.splits if_splits)

lemma forward_v1_never:
  "snd (forward_v1 b reply request) = Never_settles \<longleftrightarrow> reply = No_reply"
  by (cases reply) (auto simp: forward_v1_def split: sum.splits)


text \<open>
  The amended claim at the chunk "ping, malformed line, ping" on a new process: the
  error response comes first, then the two pongs. And at the chunk "tools/call,
  malformed line, ping" on a network that never answers: the error response and the
  pong are written while the call is in flight, and the call's own response follows
  when its timer has fired.
\<close>

theorem malformed_line_answered_with_error_witness:
  \<open>(trim ''{oops'' \<noteq> [] \<and> JSON_parse sample_builtins ''{oops'' = Inl ''Unexpected token''
   \<and> \<not> stdinEnded new_wrapper
   \<and> processLine sample_builtins No_reply ''{oops'' new_wrapper
       = new_wrapper\<lparr>stdout := [error_envelope JNull (- 32603) ''Unexpected token'']\<rparr>
   \<and> stdout (fst (on_lines sample_builtins
        [(''{"jsonrpc":"2.0","id":5,"method":"ping"}'', No_reply), (''{oops'', No_reply),
         (''{"jsonrpc":"2.0","id":5,"method":"ping"}'', No_reply)] (new_wrapper, [])))
       = [error_envelope JNull (- 32603) ''Unexpected token'',
          result_envelope (JNum 5) (JObj []), result_envelope (JNum 5) (JObj [])]
   \<and> exit_code (fst (on_lines sample_builtins
        [(''{"jsonrpc":"2.0","id":5,"method":"ping"}'', No_reply), (''{oops'', No_reply),
         (''{"jsonrpc":"2.0","id":5,"method":"ping"}'', No_reply)] (new_wrapper, []))) = None)
   \<and> (stdout (fst (on_lines sample_builtins
        [(''{"jsonrpc":"2.0","id":3,"method":"tools/call","params":{"name":"list_available_models","arguments":{}}}'', No_reply),
         (''{oops'', No_reply),
         (''{"jsonrpc":"2.0","id":5,"method":"ping"}'', No_reply)] (new_wrapper, [])))
       = [error_envelope JNull (- 32603) ''Unexpected token'', result_envelope (JNum 5) (JObj [])]
   \<and> length (snd (on_lines sample_builtins
        [(''{"jsonrpc":"2.0","id":3,"method":"tools/call","params":{"name":"list_available_models","arguments":{}}}'', No_reply),
         (''{oops'', No_reply),
         (''{"jsonrpc":"2.0","id":5,"method":"ping"}'', No_reply)] (new_wrapper, []))) = 1
   \<and> stdout (fst (exchange_completes sample_builtins 0 (on_lines sample_builtins
        [(''{"jsonrpc":"2.0","id":3,"method":"tools/call","params":{"name":"list_available_models","arguments":{}}}'', No_reply),
         (''{oops'', No_reply),
         (''{"jsonrpc":"2.0","id":5,"method":"ping"}'', No_reply)] (new_wrapper, []))))
       = [error_envelope JNull (- 32603) ''Unexpected token'', result_envelope (JNum 5) (JObj []),
          error_envelope JNull (- 32603) ''Request timed out after 180 seconds''])
   \<and> (trim '' '' = [] \<and> processLine sample_builtins No_reply '' '' new_wrapper = new_wrapper)\<close>
proof -
  let ?ping = \<open>''{"jsonrpc":"2.0","id":5,"method":"ping"}''\<close>
  let ?call = \<open>''{"jsonrpc":"2.0","id":3,"method":"tools/call","params":{"name":"list_available_models","arguments":{}}}''\<close>
  let ?req = "JObj [(''jsonrpc'', JStr ''2.0''), (''id'', JNum 3), (''method'', JStr ''tools/call''),
                   (''params'', JObj [(''name'', JStr ''list_available_models''),
                                      (''arguments'', JObj [])])]"
  have a: "trim ''{oops'' \<noteq> [] \<and> JSON_parse sample_builtins ''{oops'' = Inl ''Unexpected token''"
    by (simp add: trim_def js_space_def sample_builtins_def sample_JSON_parse_def)
  have o: "\<not> stdinEnded new_wrapper" "stdout new_wrapper = []" "exit_code new_wrapper = None"
    by (simp_all add: new_wrapper_def)
  have sp: "suspension sample_builtins No_reply ?ping
              = [Answered (Inr (result_envelope (JNum 5) (JObj [])))]"
    "early_response sample_builtins ?ping = []"
    by (simp_all add: suspension_def early_response_def trim_def js_space_def sample_builtins_def
          sample_JSON_parse_def forwards_def handle_def Let_def result_envelope_def)
  have sc: "suspension sample_builtins No_reply ?call = [Forwarded ?req No_reply]"
    "early_response sample_builtins ?call = []"
    by (simp_all add: suspension_def early_response_def trim_def js_space_def sample_builtins_def
          sample_JSON_parse_def forwards_def)
  have e: "early_responses sample_builtins [(?ping, No_reply)] = []"
    "early_responses sample_builtins [(?call, No_reply)] = []"
    "microtask_responses sample_builtins ([(?ping, No_reply)] @ [(?ping, No_reply)])
       = [result_envelope (JNum 5) (JObj []), result_envelope (JNum 5) (JObj [])]"
    "microtask_responses sample_builtins ([(?call, No_reply)] @ [(?ping, No_reply)])
       = [result_envelope (JNum 5) (JObj [])]"
    "left_in_flight sample_builtins ([(?call, No_reply)] @ [(?ping, No_reply)])
       = [Forwarded ?req No_reply]"
    by (simp_all add: early_responses_def microtask_responses_def left_in_flight_def
          suspensions_def sp sc resume_response_def result_envelope_def)
  note T = malformed_line_answered_with_error[where line = "''{oops''" and b = sample_builtins
          and msg = "''Unexpected token''" and reply = No_reply and w = new_wrapper
          and xs = "[(?ping, No_reply)]" and ys = "[(?ping, No_reply)]" and fl = "[]",
          THEN conjunct1, THEN mp, OF a]
  note U = malformed_line_answered_with_error[where line = "''{oops''" and b = sample_builtins
          and msg = "''Unexpected token''" and reply = No_reply and w = new_wrapper
          and xs = "[(?call, No_reply)]" and ys = "[(?ping, No_reply)]" and fl = "[]",
          THEN conjunct1, THEN mp, OF a]
  have first: \<open>trim ''{oops'' \<noteq> [] \<and> JSON_parse sample_builtins ''{oops'' = Inl ''Unexpected token''
   \<and> \<not> stdinEnded new_wrapper
   \<and> processLine sample_builtins No_reply ''{oops'' new_wrapper
       = new_wrapper\<lparr>stdout := [error_envelope JNull (- 32603) ''Unexpected token'']\<rparr>
   \<and> stdout (fst (on_lines sample_builtins
        [(?ping, No_reply), (''{oops'', No_reply), (?ping, No_reply)] (new_wrapper, [])))
       = [error_envelope JNull (- 32603) ''Unexpected token'',
          result_envelope (JNum 5) (JObj []), result_envelope (JNum 5) (JObj [])]
   \<and> exit_code (fst (on_lines sample_builtins
        [(?ping, No_reply), (''{oops'', No_reply), (?ping, No_reply)] (new_wrapper, []))) = None\<close>
    using a o e T by (simp add: checkExit_open del: start_lines.simps)
  have inflight: "snd (on_lines sample_builtins
        [(?call, No_reply), (''{oops'', No_reply), (?ping, No_reply)] (new_wrapper, []))
       = [Forwarded ?req No_reply]"
    using o e U by (simp add: checkExit_open del: start_lines.simps)
  have out: "stdout (fst (on_lines sample_builtins
        [(?call, No_reply), (''{oops'', No_reply), (?ping, No_reply)] (new_wrapper, [])))
       = [error_envelope JNull (- 32603) ''Unexpected token'', result_envelope (JNum 5) (JObj [])]"
    using o e U by (simp add: checkExit_open del: start_lines.simps)
  have still_open: "\<not> stdinEnded (fst (on_lines sample_builtins
        [(?call, No_reply), (''{oops'', No_reply), (?ping, No_reply)] (new_wrapper, [])))"
    using on_lines_open(6)[OF o(1)] o(1) by simp
  have late: "resume_response sample_builtins (Forwarded ?req No_reply)
       = [error_envelope JNull (- 32603) ''Request timed out after 180 seconds'']"
    by (simp add: resume_response_def forward_def forward_try_def)
  have completed: "stdout (fst (exchange_completes sample_builtins 0 (on_lines sample_builtins
        [(?call, No_reply), (''{oops'', No_reply), (?ping, No_reply)] (new_wrapper, []))))
       = [error_envelope JNull (- 32603) ''Unexpected token'', result_envelope (JNum 5) (JObj []),
          error_envelope JNull (- 32603) ''Request timed out after 180 seconds'']"
    using exchange_completes_open[OF still_open, where i = 0 and b = sample_builtins]
      inflight out late
    by (simp del: start_lines.simps)
  have second: \<open>stdout (fst (on_lines sample_builtins
        [(?call, No_reply), (''{oops'', No_reply), (?ping, No_reply)] (new_wrapper, [])))
       = [error_envelope JNull (- 32603) ''Unexpected token'', result_envelope (JNum 5) (JObj [])]
   \<and> length (snd (on_lines sample_builtins
        [(?call, No_reply), (''{oops'', No_reply), (?ping, No_reply)] (new_wrapper, []))) = 1
   \<and> stdout (fst (exchange_completes sample_builtins 0 (on_lines sample_builtins
        [(?call, No_reply), (''{oops'', No_reply), (?ping, No_reply)] (new_wrapper, []))))
       = [error_envelope JNull (- 32603) ''Unexpected token'', result_envelope (JNum 5) (JObj []),
          error_envelope JNull (- 32603) ''Request timed out after 180 seconds'']\<close>
    using out inflight completed by simp
  have third: \<open>trim '' '' = [] \<and> processLine sample_builtins No_reply '' '' new_wrapper = new_wrapper\<close>
    using malformed_line_answered_with_error[where line = "'' ''" and b = sample_builtins
        and reply = No_reply and w = new_wrapper]
    by (simp add: trim_def js_space_def)
  show ?thesis
    by (rule conjI[OF first conjI[OF second third]])
qed

text \<open>
  The \<open>data\<close> handler on the text of a chunk: a ping, then a malformed line, each
  ended by a newline, then the beginning of a further line.
\<close>

lemma on_data_example:
  \<open>stdout (fst (on_data sample_builtins silent_network
        (''{"jsonrpc":"2.0","id":5,"method":"ping"}'' @ [CHR 0x0A] @ ''{oops'' @ [CHR 0x0A] @ ''{"js'')
        (new_wrapper, [])))
     = [error_envelope JNull (- 32603) ''Unexpected token'', result_envelope (JNum 5) (JObj [])]
   \<and> buffer (fst (on_data sample_builtins silent_network
        (''{"jsonrpc":"2.0","id":5,"method":"ping"}'' @ [CHR 0x0A] @ ''{oops'' @ [CHR 0x0A] @ ''{"js'')
        (new_wrapper, []))) = ''{"js''
   \<and> snd (on_data sample_builtins silent_network
        (''{"jsonrpc":"2.0","id":5,"method":"ping"}'' @ [CHR 0x0A] @ ''{oops'' @ [CHR 0x0A] @ ''{"js'')
        (new_wrapper, [])) = []\<close>
  by (simp add: on_data_def on_lines_def processLine_start_def processLine_resume_def
        processLine_catch_def respond_def checkExit_def forwards_def handle_def trim_def
        js_space_def sample_builtins_def sample_JSON_parse_def silent_network_def
        new_wrapper_def result_envelope_def error_envelope_def Let_def upt_conv_Cons)

text \<open>
  C6, as the claim states it, fails on \<open>HTTPMCPClient\<close>: its \<open>fetch\<close> carries no timer
  and no abort signal, so on a network that never answers the call never settles; it
  does not fail with a timeout error.
\<close>

theorem remote_call_without_timeout_counterexample:
  "fst (sendRequest sample_builtins silent_network ''tools/call'' (JObj [])
          (new_HTTPMCPClient ''stripe'' \<lparr>url = Some ''https://mcp.stripe.com'', headers = Map.empty\<rparr>, []))
     = Never_settles
   \<and> fst (callTool sample_builtins silent_network ''list_customers'' (JObj [])
          (new_HTTPMCPClient ''stripe'' \<lparr>url = Some ''https://mcp.stripe.com'', headers = Map.empty\<rparr>, []))
     = Never_settles"
  by (simp add: sendRequest_def sendRequest_end_def silent_network_def callTool_def initialize_def
        new_HTTPMCPClient_def)

text \<open>
  C6, amended. The wrapper's \<open>forward\<close> (v2.1) bounds every forwarded request by a timer
  of 180000 ms: when the exchange has not completed by then (or never completes), the
  \<open>fetch\<close> is aborted and the call fails with "Request timed out after 180 seconds";
  when it completes earlier, nothing is aborted. A \<open>tools/call\<close> line that times out
  is answered with the error envelope carrying that message, and the process is left as
  it was but for its output, so it goes on serving lines. \<open>HTTPMCPClient.sendRequest\<close>
  and the first-generation \<open>forward\<close> set no timeout: the call settles exactly when
  the exchange does.
\<close>

theorem forward_bounded_by_timer:
  "(timer_fires reply \<longleftrightarrow>
      (case reply of No_reply \<Rightarrow> True | Net_failure d e \<Rightarrow> 180000 \<le> d | Reply d status body \<Rightarrow> 180000 \<le> d))
   \<and> (timer_fires reply \<longrightarrow>
        forward b reply request
          = ([Posted request, Aborted], Inl (Error ''Request timed out after 180 seconds'')))
   \<and> (\<not> timer_fires reply \<longrightarrow> fst (forward b reply request) = [Posted request])
   \<and> (timer_fires reply \<and> trim line \<noteq> [] \<and> JSON_parse b line = Inr request
        \<and> field request ''method'' = JStr ''tools/call'' \<longrightarrow>
        processLine b reply line w
          = checkExit (w\<lparr>net_log := net_log w @ [Posted request, Aborted],
                         stdout := stdout w @ [error_envelope JNull (- 32603)
                                                ''Request timed out after 180 seconds'']\<rparr>))
   \<and> (fst (sendRequest b net method params st) = Never_settles \<longleftrightarrow> net (length (snd st)) = No_reply)
   \<and> (snd (forward_v1 b reply request) = Never_settles \<longleftrightarrow> reply = No_reply)"
proof (intro conjI impI)
  show "timer_fires reply \<longleftrightarrow>
      (case reply of No_reply \<Rightarrow> True | Net_failure d e \<Rightarrow> 180000 \<le> d | Reply d status body \<Rightarrow> 180000 \<le> d)"
    by (cases reply) (simp_all add: timeout_ms_def not_less)
  show "timer_fires reply \<Longrightarrow> forward b reply request
          = ([Posted request, Aborted], Inl (Error ''Request timed out after 180 seconds''))"
    by (rule forward_timed_out)
  show "\<not> timer_fires reply \<Longrightarrow> fst (forward b reply request) = [Posted request]"
    by (rule forward_in_time)
  show "fst (sendRequest b net method params st) = Never_settles \<longleftrightarrow> net (length (snd st)) = No_reply"
    by (simp add: sendRequest_def sendRequest_end_never)
  show "snd (forward_v1 b reply request) = Never_settles \<longleftrightarrow> reply = No_reply"
    by (rule forward_v1_never)
next
  assume h: "timer_fires reply \<and> trim line \<noteq> [] \<and> JSON_parse b line = Inr request
        \<and> field request ''method'' = JStr ''tools/call''"
  then have hd: "handle b reply request
      = ([Posted request, Aborted], Inl (Error ''Request timed out after 180 seconds''))"
    by (simp add: handle_tools_call forward_timed_out)
  have "line_responses b reply line
          = [error_envelope JNull (- 32603) ''Request timed out after 180 seconds'']"
    "line_requests b reply line = [Posted request, Aborted]"
    using h hd by (simp_all add: line_responses_def line_requests_def)
  then show "processLine b reply line w
          = checkExit (w\<lparr>net_log := net_log w @ [Posted request, Aborted],
                         stdout := stdout w @ [error_envelope JNull (- 32603)
                                                ''Request timed out after 180 seconds'']\<rparr>)"
    using h by (simp add: processLine_effect)
qed

theorem forward_bounded_by_timer_witness:
  \<open>timer_fires No_reply
   \<and> forward sample_builtins No_reply (JObj [(''method'', JStr ''tools/call'')])
       = ([Posted (JObj [(''method'', JStr ''tools/call'')]), Aborted],
          Inl (Error ''Request timed out after 180 seconds''))
   \<and> \<not> timer_fires (Reply 5 200 ''{"x":1}'')
   \<and> fst (forward sample_builtins (Reply 5 200 ''{"x":1}'') (JObj [(''method'', JStr ''tools/call'')]))
       = [Posted (JObj [(''method'', JStr ''tools/call'')])]
   \<and> stdout (processLine sample_builtins No_reply
        ''{"jsonrpc":"2.0","id":3,"method":"tools/call","params":{"name":"list_available_models","arguments":{}}}''
        new_wrapper)
       = [error_envelope JNull (- 32603) ''Request timed out after 180 seconds'']
   \<and> pendingRequests (processLine sample_builtins No_reply
        ''{"jsonrpc":"2.0","id":3,"method":"tools/call","params":{"name":"list_available_models","arguments":{}}}''
        new_wrapper) = 0\<close>
proof -
  let ?line = \<open>''{"jsonrpc":"2.0","id":3,"method":"tools/call","params":{"name":"list_available_models","arguments":{}}}''\<close>
  let ?req = "JObj [(''jsonrpc'', JStr ''2.0''), (''id'', JNum 3), (''method'', JStr ''tools/call''),
                   (''params'', JObj [(''name'', JStr ''list_available_models''),
                                      (''arguments'', JObj [])])]"
  have a: "timer_fires No_reply" "\<not> timer_fires (Reply 5 200 body)" for body
    by (simp_all add: timeout_ms_def)
  have l: "trim ?line \<noteq> [] \<and> JSON_parse sample_builtins ?line = Inr ?req
           \<and> field ?req ''method'' = JStr ''tools/call''"
    by (simp add: trim_def js_space_def sample_builtins_def sample_JSON_parse_def)
  have w: "checkExit (new_wrapper\<lparr>net_log := nl, stdout := so\<rparr>) = new_wrapper\<lparr>net_log := nl, stdout := so\<rparr>"
    "pendingRequests new_wrapper = 0" "stdout new_wrapper = []" for nl so
    by (simp_all add: checkExit_def new_wrapper_def)
  show ?thesis
    using a l
      forward_bounded_by_timer[where reply = No_reply and b = sample_builtins
        and request = "JObj [(''method'', JStr ''tools/call'')]"]
      forward_bounded_by_timer[where reply = \<open>Reply 5 200 ''{"x":1}''\<close> and b = sample_builtins
        and request = "JObj [(''method'', JStr ''tools/call'')]"]
      forward_bounded_by_timer[where reply = No_reply and b = sample_builtins
        and request = ?req and line = ?line and w = new_wrapper]
    by (simp add: w)
qed

text \<open>
  C9. The code at a notification other than \<open>notifications/initialized\<close>: the
  \<open>notifications/cancelled\<close> message (no id) falls through to "Unknown method",
  \<open>handle\<close> yields an error envelope and \<open>processLine\<close> writes it to stdout. Only
  \<open>notifications/initialized\<close> yields \<open>null\<close>; and the first generation forwards even that
  one to the remote server and writes back whatever comes.
\<close>

theorem notification_answered_with_error:
  \<open>handle sample_builtins No_reply
      (JObj [(''jsonrpc'', JStr ''2.0''), (''method'', JStr ''notifications/cancelled''),
             (''params'', JObj [(''requestId'', JNum 7)])])
     = ([], Inr (JObj [(''jsonrpc'', JStr ''2.0''), (''id'', JUndefined),
                       (''error'', JObj [(''code'', JNum (- 32601)),
                                         (''message'', JStr ''Method not found: notifications/cancelled'')])]))
   \<and> stdout (processLine sample_builtins No_reply
        ''{"jsonrpc":"2.0","method":"notifications/cancelled","params":{"requestId":7}}'' new_wrapper)
     = [JObj [(''jsonrpc'', JStr ''2.0''), (''id'', JUndefined),
              (''error'', JObj [(''code'', JNum (- 32601)),
                                (''message'', JStr ''Method not found: notifications/cancelled'')])]]
   \<and> handle sample_builtins No_reply
        (JObj [(''jsonrpc'', JStr ''2.0''), (''method'', JStr ''notifications/initialized'')])
     = ([], Inr JNull)
   \<and> fst (handle_v1 sample_builtins No_reply
        (JObj [(''jsonrpc'', JStr ''2.0''), (''method'', JStr ''notifications/initialized'')]))
     = [Posted (JObj [(''jsonrpc'', JStr ''2.0''), (''method'', JStr ''notifications/initialized'')])]\<close>
  by (simp add: handle_def handle_v1_def forward_v1_def Let_def error_envelope_def to_string_def
        processLine_def trim_def js_space_def sample_builtins_def sample_JSON_parse_def
        respond_def checkExit_def new_wrapper_def)

end
